theory Spec2Isabelle
  imports Main "HOL-Library.Sublist"
begin

section \<open>JavaScript strings\<close>

text \<open>
  Paths, module specifiers and names are Isabelle strings: the code compares them and
  looks for the characters \<open>/\<close>, \<open>\\<close> and \<open>.\<close> in them, and does nothing
  else with their characters.

  For \<open>kebabize\<close>, which works on the single UTF-16 code units of its argument, a
  JavaScript string is the list of its code units, each given by its number, and
  \<open>js\<close> turns an ASCII literal into such a string. \<open>toUpperCase\<close> and
  \<open>toLowerCase\<close> are the case mappings of the platform; they are a parameter, of
  which only the behaviour on the ASCII range is ever assumed, in \<open>agrees_with_ascii\<close>:
  there the twenty-six letters map to each other and every other code unit is its own
  upper and lower case form. The same predicate says of a notion of uppercase
  character that on the ASCII range it is the letters \<open>A\<close> to \<open>Z\<close>.
\<close>

type_synonym jsstring = "nat list"

definition js :: "string \<Rightarrow> jsstring" where
  "js s = map of_char s"

record caseMapping =
  toUpperCase :: "jsstring \<Rightarrow> jsstring"
  toLowerCase :: "jsstring \<Rightarrow> jsstring"

definition ascii_upper :: "nat \<Rightarrow> nat" where
  "ascii_upper u = (if 97 \<le> u \<and> u \<le> 122 then u - 32 else u)"

definition ascii_lower :: "nat \<Rightarrow> nat" where
  "ascii_lower u = (if 65 \<le> u \<and> u \<le> 90 then u + 32 else u)"

definition agrees_with_ascii :: "caseMapping \<Rightarrow> (nat \<Rightarrow> bool) \<Rightarrow> bool" where
  "agrees_with_ascii cm isUpperCase \<longleftrightarrow>
     (\<forall>u<128. toUpperCase cm [u] = [ascii_upper u] \<and> toLowerCase cm [u] = [ascii_lower u] \<and>
              (isUpperCase u \<longleftrightarrow> 65 \<le> u \<and> u \<le> 90))"

text \<open>\<open>str.split('')\<close>: the list of the one-unit strings of \<open>str\<close>.\<close>

definition split_chars :: "'a list \<Rightarrow> 'a list list" where
  "split_chars str = map (\<lambda>c. [c]) str"

text \<open>\<open>str.endsWith(s)\<close> and \<open>str.includes(s)\<close>.\<close>

definition endsWith :: "string \<Rightarrow> string \<Rightarrow> bool" where
  "endsWith str s = suffix s str"

definition includes_str :: "string \<Rightarrow> string \<Rightarrow> bool" where
  "includes_str str s = sublist s str"

text \<open>
  \<open>str.slice(a, b)\<close>: a negative index counts from the end, and both indices are
  clamped to the string.
\<close>

definition slice :: "string \<Rightarrow> int \<Rightarrow> int \<Rightarrow> string" where
  "slice s a b =
     (let len = int (length s);
          from = (if a < 0 then max (len + a) 0 else min a len);
          to = (if b < 0 then max (len + b) 0 else min b len)
      in take (nat (to - from)) (drop (nat from) s))"

text \<open>\<open>str.replace(/\\/g, '/')\<close>: every backslash becomes a forward slash.\<close>

definition replace_backslashes :: "string \<Rightarrow> string" where
  "replace_backslashes str = map (\<lambda>c. if c = CHR 0x5C then CHR ''/'' else c) str"

text \<open>
  \<open>str.replace(/\/\//g, '/')\<close>: the matches are found from left to right and do not
  overlap, so each pair of slashes met in the scan becomes one slash and the scan goes on
  after the pair.
\<close>

fun replace_double_slashes :: "string \<Rightarrow> string" where
  "replace_double_slashes (a # b # rest) =
     (if a = CHR ''/'' \<and> b = CHR ''/'' then CHR ''/'' # replace_double_slashes rest
      else a # replace_double_slashes (b # rest))"
| "replace_double_slashes [a] = [a]"
| "replace_double_slashes [] = []"

text \<open>\<open>parts.join(sep)\<close>.\<close>

fun join :: "string \<Rightarrow> string list \<Rightarrow> string" where
  "join sep [] = []"
| "join sep [s] = s"
| "join sep (s # t # rest) = s @ sep @ join sep (t # rest)"

text \<open>\<open>str.split('/')\<close>.\<close>

fun split_slash :: "string \<Rightarrow> string list" where
  "split_slash [] = [[]]"
| "split_slash (c # cs) =
     (if c = CHR ''/'' then [] # split_slash cs
      else (case split_slash cs of [] \<Rightarrow> [[c]] | s # ss \<Rightarrow> (c # s) # ss))"

section \<open>The path module of Node.js (POSIX)\<close>

text \<open>
  \<open>path.parse\<close>, \<open>path.join\<close> and \<open>path.relative\<close> belong to the Node.js runtime,
  not to the repository. \<open>path.parse\<close> follows the scan of \<open>path.posix.parse\<close>: the
  index runs from the end of the path down to \<open>start\<close>, skips the trailing separators,
  records where the last component ends and where its last dot is, and stops at the
  separator before that component.
\<close>

record parsedPath =
  root :: string
  dir :: string
  base :: string
  ext :: string
  name :: string

record parseState =
  startDot :: int
  startPart :: int
  endIdx :: int
  matchedSlash :: bool
  preDotState :: int

fun parse_loop :: "string \<Rightarrow> nat \<Rightarrow> nat \<Rightarrow> parseState \<Rightarrow> parseState" where
  "parse_loop path start 0 st = st"
| "parse_loop path start (Suc i) st =
     (if i < start then st
      else if path ! i = CHR ''/'' then
        (if \<not> matchedSlash st then st\<lparr>startPart := int i + 1\<rparr>
         else parse_loop path start i st)
      else
        (let st1 = (if endIdx st = -1 then st\<lparr>matchedSlash := False, endIdx := int i + 1\<rparr>
                    else st);
             st2 = (if path ! i = CHR ''.'' then
                      (if startDot st1 = -1 then st1\<lparr>startDot := int i\<rparr>
                       else if preDotState st1 \<noteq> 1 then st1\<lparr>preDotState := 1\<rparr>
                       else st1)
                    else if startDot st1 \<noteq> -1 then st1\<lparr>preDotState := -1\<rparr>
                    else st1)
         in parse_loop path start i st2))"

definition path_parse :: "string \<Rightarrow> parsedPath" where
  "path_parse path =
     (if path = [] then \<lparr>root = [], dir = [], base = [], ext = [], name = []\<rparr>
      else
        (let isAbsolute = (hd path = CHR ''/'');
             start = (if isAbsolute then 1 else 0);
             st = parse_loop path start (length path)
                    \<lparr>startDot = -1, startPart = 0, endIdx = -1, matchedSlash = True,
                     preDotState = 0\<rparr>;
             start2 = (if startPart st = 0 \<and> isAbsolute then 1 else startPart st);
             noExt = (startDot st = -1 \<or> preDotState st = 0 \<or>
                      (preDotState st = 1 \<and> startDot st = endIdx st - 1 \<and>
                       startDot st = startPart st + 1))
         in \<lparr>root = (if isAbsolute then ''/'' else []),
             dir = (if startPart st > 0 then slice path 0 (startPart st - 1)
                    else if isAbsolute then ''/'' else []),
             base = (if endIdx st \<noteq> -1 then slice path start2 (endIdx st) else []),
             ext = (if endIdx st \<noteq> -1 \<and> \<not> noExt then slice path (startDot st) (endIdx st)
                    else []),
             name = (if endIdx st \<noteq> -1
                     then (if noExt then slice path start2 (endIdx st)
                           else slice path start2 (startDot st))
                     else [])\<rparr>))"

text \<open>
  \<open>path.normalize\<close>: empty and \<open>.\<close> segments are dropped, a \<open>..\<close> segment removes
  the segment before it (at the root it is dropped, at the start of a relative path it
  is kept), and a trailing separator is kept.
\<close>

fun normalize_segments :: "bool \<Rightarrow> string list \<Rightarrow> string list \<Rightarrow> string list" where
  "normalize_segments allowAboveRoot acc [] = rev acc"
| "normalize_segments allowAboveRoot acc (s # rest) =
     (if s = [] \<or> s = ''.'' then normalize_segments allowAboveRoot acc rest
      else if s = ''..'' then
        (case acc of
           [] \<Rightarrow> normalize_segments allowAboveRoot (if allowAboveRoot then [''..''] else []) rest
         | t # ts \<Rightarrow>
             (if t = ''..'' then normalize_segments allowAboveRoot (''..'' # acc) rest
              else normalize_segments allowAboveRoot ts rest))
      else normalize_segments allowAboveRoot (s # acc) rest)"

definition path_normalize :: "string \<Rightarrow> string" where
  "path_normalize path =
     (if path = [] then ''.''
      else
        (let isAbsolute = (hd path = CHR ''/'');
             trailingSeparator = (last path = CHR ''/'');
             p = join ''/'' (normalize_segments (\<not> isAbsolute) [] (split_slash path))
         in if p = [] then (if isAbsolute then ''/'' else if trailingSeparator then ''./'' else ''.'')
            else (if isAbsolute then ''/'' else []) @ p @ (if trailingSeparator then ''/'' else [])))"

definition path_join :: "string list \<Rightarrow> string" where
  "path_join args =
     (let parts = filter (\<lambda>a. a \<noteq> []) args
      in if parts = [] then ''.'' else path_normalize (join ''/'' parts))"

text \<open>
  \<open>path.relative(from, to)\<close> for two absolute paths: the segments the two paths share
  are dropped, each remaining segment of \<open>from\<close> becomes \<open>..\<close>, and the remaining
  segments of \<open>to\<close> follow.
\<close>

fun drop_common :: "string list \<Rightarrow> string list \<Rightarrow> string list \<times> string list" where
  "drop_common (a # as) (b # bs) = (if a = b then drop_common as bs else (a # as, b # bs))"
| "drop_common as bs = (as, bs)"

definition path_relative :: "string \<Rightarrow> string \<Rightarrow> string" where
  "path_relative from to =
     (let fromSegments = normalize_segments False [] (split_slash from);
          toSegments = normalize_segments False [] (split_slash to);
          (fromRest, toRest) = drop_common fromSegments toSegments
      in join ''/'' (replicate (length fromRest) ''..'' @ toRest))"

section \<open>The program model (ts-morph) and the file system\<close>

text \<open>
  The program model is the ts-morph library's. A node is modelled by the attributes
  this module reads or writes, each field named after the getter the code calls, and an
  operation of the library by its effect on these attributes.
  An import declaration carries the literal value of its module specifier, its default
  import, its namespace import and its named imports in order. A source file holds its
  statements in order, import declarations among them; comments are not part of the
  model.
\<close>

record importDeclaration =
  getModuleSpecifier :: string
  getDefaultImport :: "string option"
  getNamespaceImport :: "string option"
  getNamedImports :: "string list"

datatype statement = ImportDeclaration importDeclaration | OtherStatement string

text \<open>
  The children of a variable declaration: what \<open>Node.isObjectLiteralExpression\<close>
  answers for the child, and the child's text.
\<close>

datatype node = ObjectLiteralExpression string | OtherNode string

fun isObjectLiteralExpression :: "node \<Rightarrow> bool" where
  "isObjectLiteralExpression (ObjectLiteralExpression _) = True"
| "isObjectLiteralExpression (OtherNode _) = False"

text \<open>\<open>getTypeText v\<close> is \<open>v.getType().getText(v)\<close>.\<close>

record variableDeclaration =
  getTypeText :: string
  getChildren :: "node list"

record sourceFile =
  getFilePath :: string
  getFullText :: string
  getStatements :: "statement list"
  getVariableDeclarations :: "variableDeclaration list"

fun importDeclarationsOf :: "statement list \<Rightarrow> importDeclaration list" where
  "importDeclarationsOf [] = []"
| "importDeclarationsOf (ImportDeclaration d # rest) = d # importDeclarationsOf rest"
| "importDeclarationsOf (OtherStatement _ # rest) = importDeclarationsOf rest"

definition getImportDeclarations :: "sourceFile \<Rightarrow> importDeclaration list" where
  "getImportDeclarations sf = importDeclarationsOf (getStatements sf)"

record directory =
  getPath :: string

record project =
  getSourceFiles :: "sourceFile list"
  getDirectory :: "string \<Rightarrow> directory option"

text \<open>
  What the code reads from outside the program model: the working directory, the file
  system, and the parser that ts-morph runs over the text of a source file. A file
  system call that would throw gives \<open>None\<close>.
\<close>

record env =
  cwd :: string
  existsSync :: "string \<Rightarrow> bool"
  readFileSync :: "string \<Rightarrow> string option"
  readdirSync :: "string \<Rightarrow> string list option"
  parseStatements :: "string \<Rightarrow> statement list"
  parseVariableDeclarations :: "string \<Rightarrow> variableDeclaration list"

datatype error =
    Error string
  | FileSystemError string
  | FileNotFoundError string
  | InvalidOperationError string
  | ArgumentOutOfRangeError string

fun message :: "error \<Rightarrow> string" where
  "message (Error m) = m"
| "message (FileSystemError m) = m"
| "message (FileNotFoundError m) = m"
| "message (InvalidOperationError m) = m"
| "message (ArgumentOutOfRangeError m) = m"

text \<open>The source file that ts-morph builds from a path and a text.\<close>

definition parseSourceFile :: "env \<Rightarrow> string \<Rightarrow> string \<Rightarrow> sourceFile" where
  "parseSourceFile e filePath text =
     \<lparr>getFilePath = filePath, getFullText = text,
      getStatements = parseStatements e text,
      getVariableDeclarations = parseVariableDeclarations e text\<rparr>"

text \<open>
  \<open>project.addSourceFileAtPath(filePath)\<close>: a file the project already holds is kept as
  it is, a file that is not on disk is an error, and a new file comes last.
\<close>

definition addSourceFileAtPath :: "env \<Rightarrow> project \<Rightarrow> string \<Rightarrow> error + project" where
  "addSourceFileAtPath e p filePath =
     (case find (\<lambda>sf. getFilePath sf = filePath) (getSourceFiles p) of
        Some _ \<Rightarrow> Inr p
      | None \<Rightarrow>
          (case readFileSync e filePath of
             None \<Rightarrow> Inl (FileNotFoundError filePath)
           | Some text \<Rightarrow>
               Inr (p\<lparr>getSourceFiles := getSourceFiles p @ [parseSourceFile e filePath text]\<rparr>)))"

text \<open>
  \<open>project.createSourceFile(filePath, text, { overwrite })\<close>: a file at that path is
  replaced where it stands when \<open>overwrite\<close> is set and is an error otherwise; a new
  file comes last. The result is the file and the project holding it.
\<close>

fun replaceSourceFile :: "sourceFile \<Rightarrow> sourceFile list \<Rightarrow> sourceFile list" where
  "replaceSourceFile new [] = []"
| "replaceSourceFile new (sf # rest) =
     (if getFilePath sf = getFilePath new then new # rest
      else sf # replaceSourceFile new rest)"

definition createSourceFile ::
  "env \<Rightarrow> project \<Rightarrow> string \<Rightarrow> string \<Rightarrow> bool \<Rightarrow> error + (sourceFile \<times> project)" where
  "createSourceFile e p filePath text overwrite =
     (let new = parseSourceFile e filePath text
      in case find (\<lambda>sf. getFilePath sf = filePath) (getSourceFiles p) of
           Some _ \<Rightarrow>
             (if overwrite
              then Inr (new, p\<lparr>getSourceFiles := replaceSourceFile new (getSourceFiles p)\<rparr>)
              else Inl (InvalidOperationError filePath))
         | None \<Rightarrow> Inr (new, p\<lparr>getSourceFiles := getSourceFiles p @ [new]\<rparr>))"

section \<open>ast-utils.ts\<close>

subsection \<open>getTsMorphProject\<close>

text \<open>
  The options of the \<open>Project\<close> constructor that the function sets. An option that is
  not given is \<open>None\<close>. \<open>defaultManipulationSettings\<close> comes from a module outside this
  file and is a parameter, as is the constructor itself. The function's result comes
  with the calls it made to the file system, in order: the probe for the configuration
  file, and the construction of the project, which reads the configuration and the
  source files it names.
\<close>

record 'm projectOptions =
  tsConfigFilePath :: "string option"
  manipulationSettings :: "'m option"
  compilerOptions :: "(string \<times> bool) list option"

datatype fs_call = ExistsSync string | NewProject string

text \<open>\<open>{ ...defaults, ...options }\<close>: an option the caller gives replaces the default.\<close>

definition spread :: "'m projectOptions \<Rightarrow> 'm projectOptions \<Rightarrow> 'm projectOptions" where
  "spread defaults options =
     \<lparr>tsConfigFilePath =
        (case tsConfigFilePath options of None \<Rightarrow> tsConfigFilePath defaults | Some v \<Rightarrow> Some v),
      manipulationSettings =
        (case manipulationSettings options of None \<Rightarrow> manipulationSettings defaults
         | Some v \<Rightarrow> Some v),
      compilerOptions =
        (case compilerOptions options of None \<Rightarrow> compilerOptions defaults | Some v \<Rightarrow> Some v)\<rparr>"

definition getTsMorphProject ::
  "env \<Rightarrow> 'm \<Rightarrow> ('m projectOptions \<Rightarrow> project) \<Rightarrow> 'm projectOptions
     \<Rightarrow> fs_call list \<times> (error + project)" where
  "getTsMorphProject e defaultManipulationSettings newProject options =
     (let tsConfigPath = path_join [cwd e, ''tsconfig.json'']
      in if \<not> existsSync e tsConfigPath
         then ([ExistsSync tsConfigPath],
               Inl (Error ''No tsconfig.json found in current directory''))
         else ([ExistsSync tsConfigPath, NewProject tsConfigPath],
               Inr (newProject
                      (spread
                         \<lparr>tsConfigFilePath = Some tsConfigPath,
                          manipulationSettings = Some defaultManipulationSettings,
                          compilerOptions = Some [(''skipLibCheck'', True)]\<rparr>
                         options))))"

subsection \<open>getVendureConfig\<close>

definition isVendureConfigVariableDeclaration :: "variableDeclaration \<Rightarrow> bool" where
  "isVendureConfigVariableDeclaration v = (getTypeText v = ''VendureConfig'')"

definition getVendureConfigSourceFile :: "bool \<Rightarrow> sourceFile list \<Rightarrow> sourceFile option" where
  "getVendureConfigSourceFile checkFileName sourceFiles =
     find (\<lambda>sf.
        (if checkFileName then endsWith (getFilePath sf) ''vendure-config.ts'' else True) \<and>
        find isVendureConfigVariableDeclaration (getVariableDeclarations sf) \<noteq> None)
       sourceFiles"

definition findAndAddVendureConfigToProject :: "env \<Rightarrow> project \<Rightarrow> error + project" where
  "findAndAddVendureConfigToProject e p =
     (case getDirectory p ''src'' of
        None \<Rightarrow> Inr p
      | Some srcDir \<Rightarrow>
          (let srcDirPath = getPath srcDir
           in case readdirSync e srcDirPath of
                None \<Rightarrow> Inl (FileSystemError srcDirPath)
              | Some srcFiles \<Rightarrow>
                  (case find (\<lambda>file. includes_str file ''vendure-config.ts'') srcFiles of
                     None \<Rightarrow> Inr p
                   | Some filePath \<Rightarrow>
                       (if filePath \<noteq> []
                        then addSourceFileAtPath e p (path_join [srcDirPath, filePath])
                        else Inr p))))"

text \<open>
  The value returned: the first child that is an object literal, of the first
  declaration of the file whose type text is \<open>VendureConfig\<close>; \<open>None\<close> is
  \<open>undefined\<close>.
\<close>

definition vendureConfigInitializer :: "sourceFile option \<Rightarrow> node option" where
  "vendureConfigInitializer vendureConfigFile =
     (case vendureConfigFile of
        None \<Rightarrow> None
      | Some sf \<Rightarrow>
          (case find isVendureConfigVariableDeclaration (getVariableDeclarations sf) of
             None \<Rightarrow> None
           | Some v \<Rightarrow> find isObjectLiteralExpression (getChildren v)))"

text \<open>
  \<open>options.checkFileName ?? true\<close>. The project is returned with the result, since the
  function may add a source file to it.
\<close>

definition getVendureConfig ::
  "env \<Rightarrow> project \<Rightarrow> bool option \<Rightarrow> error + (node option \<times> project)" where
  "getVendureConfig e p optCheckFileName =
     (let checkFileName = (case optCheckFileName of None \<Rightarrow> True | Some b \<Rightarrow> b)
      in case getVendureConfigSourceFile checkFileName (getSourceFiles p) of
           Some sf \<Rightarrow> Inr (vendureConfigInitializer (Some sf), p)
         | None \<Rightarrow>
             (case findAndAddVendureConfigToProject e p of
                Inl err \<Rightarrow> Inl err
              | Inr p' \<Rightarrow>
                  Inr (vendureConfigInitializer
                         (getVendureConfigSourceFile checkFileName (getSourceFiles p')), p')))"

subsection \<open>convertPathToRelativeImport, getRelativeImportPath\<close>

definition convertPathToRelativeImport :: "string \<Rightarrow> string" where
  "convertPathToRelativeImport filePath =
     (let normalizedPath = replace_backslashes filePath;
          parsedPath = path_parse normalizedPath
      in replace_double_slashes (''./'' @ dir parsedPath @ ''/'' @ name parsedPath))"

datatype location = SourceFileLocation sourceFile | DirectoryLocation directory

definition getRelativeImportPath :: "location \<Rightarrow> location \<Rightarrow> string" where
  "getRelativeImportPath from to =
     (let fromPath = (case from of SourceFileLocation sf \<Rightarrow> getFilePath sf
                      | DirectoryLocation d \<Rightarrow> getPath d);
          toPath = (case to of SourceFileLocation sf \<Rightarrow> getFilePath sf
                    | DirectoryLocation d \<Rightarrow> getPath d)
      in convertPathToRelativeImport (path_relative toPath fromPath))"

subsection \<open>addImportsToFile\<close>

datatype moduleSpecifierArg = StringSpecifier string | SourceFileSpecifier sourceFile

record addImportsOptions =
  moduleSpecifier :: moduleSpecifierArg
  namedImports :: "string list option"
  namespaceImport :: "string option"
  order :: "int option"

definition getModuleSpecifierString :: "moduleSpecifierArg \<Rightarrow> sourceFile \<Rightarrow> string" where
  "getModuleSpecifierString ms sourceFile =
     (case ms of
        StringSpecifier s \<Rightarrow> s
      | SourceFileSpecifier f \<Rightarrow>
          getRelativeImportPath (SourceFileLocation f) (SourceFileLocation sourceFile))"

text \<open>A string option in a condition: \<open>undefined\<close> and the empty string are falsy.\<close>

definition truthy :: "string option \<Rightarrow> bool" where
  "truthy s = (case s of None \<Rightarrow> False | Some v \<Rightarrow> v \<noteq> [])"

text \<open>
  The predicate given to \<open>getImportDeclaration\<close>: the literal value, a string, is
  compared by \<open>===\<close> with \<open>options.moduleSpecifier\<close> as the caller gave it, so a
  source file reference equals no literal value.
\<close>

definition matchesModuleSpecifier :: "moduleSpecifierArg \<Rightarrow> importDeclaration \<Rightarrow> bool" where
  "matchesModuleSpecifier ms declaration =
     (case ms of
        StringSpecifier s \<Rightarrow> getModuleSpecifier declaration = s
      | SourceFileSpecifier _ \<Rightarrow> False)"

text \<open>
  The operations of ts-morph that the function calls. A call that throws gives the
  error.

  \<open>sourceFile.addImportDeclaration(structure)\<close> puts the new declaration behind the last
  import declaration of the file, at the top when there is none, and answers with its
  place; it refuses a structure that has a namespace import and named imports.
\<close>

definition insertIndex :: "statement list \<Rightarrow> nat" where
  "insertIndex statements =
     fold (\<lambda>(i, child) index.
             case child of ImportDeclaration _ \<Rightarrow> i + 1 | OtherStatement _ \<Rightarrow> index)
          (enumerate 0 statements) 0"

definition addImportDeclaration ::
  "sourceFile \<Rightarrow> importDeclaration \<Rightarrow> error + (nat \<times> sourceFile)" where
  "addImportDeclaration sf decl =
     (if getNamespaceImport decl \<noteq> None \<and> getNamedImports decl \<noteq> []
      then Inl (InvalidOperationError
                  ''An import declaration cannot have both a namespace import and a named import.'')
      else
        (let i = insertIndex (getStatements sf)
         in Inr (i, sf\<lparr>getStatements :=
                         take i (getStatements sf) @ ImportDeclaration decl #
                         drop i (getStatements sf)\<rparr>)))"

text \<open>
  \<open>node.setOrder(order)\<close> moves the statement at \<open>childIndex\<close> to the place
  \<open>ord\<close>, the order asked for, among the statements of the file; an order outside the
  statements is an error.
\<close>

definition setOrder :: "statement list \<Rightarrow> nat \<Rightarrow> int \<Rightarrow> error + statement list" where
  "setOrder statements childIndex ord =
     (if ord < 0 \<or> int (length statements) - 1 < ord
      then Inl (ArgumentOutOfRangeError ''order'')
      else if int childIndex = ord then Inr statements
      else
        (let node = statements ! childIndex;
             others = take childIndex statements @ drop (Suc childIndex) statements
         in Inr (take (nat ord) others @ node # drop (nat ord) others)))"

text \<open>
  \<open>declaration.setNamespaceImport(text)\<close>: a blank text removes the namespace import,
  an existing namespace import is renamed, a declaration with named imports refuses a
  namespace import, and otherwise the namespace import is added.
\<close>

definition isNullOrWhitespace :: "string \<Rightarrow> bool" where
  "isNullOrWhitespace text =
     list_all (\<lambda>c. c \<in> set [CHR 0x09, CHR 0x0A, CHR 0x0B, CHR 0x0C, CHR 0x0D, CHR '' '']) text"

definition setNamespaceImport :: "importDeclaration \<Rightarrow> string \<Rightarrow> error + importDeclaration" where
  "setNamespaceImport declaration text =
     (if isNullOrWhitespace text then Inr (declaration\<lparr>getNamespaceImport := None\<rparr>)
      else if getNamespaceImport declaration \<noteq> None
      then Inr (declaration\<lparr>getNamespaceImport := Some text\<rparr>)
      else if getNamedImports declaration \<noteq> []
      then Inl (InvalidOperationError
                  ''Cannot add a namespace import to an import declaration that has named imports.'')
      else Inr (declaration\<lparr>getNamespaceImport := Some text\<rparr>))"

text \<open>
  \<open>declaration.addNamedImport(name)\<close>: the name is put behind the named imports; a
  declaration with a namespace import refuses a first named import.
\<close>

definition addNamedImport :: "importDeclaration \<Rightarrow> string \<Rightarrow> error + importDeclaration" where
  "addNamedImport declaration namedImport =
     (if getNamedImports declaration = [] \<and> getNamespaceImport declaration \<noteq> None
      then Inl (InvalidOperationError
                  ''Cannot add a named import to an import declaration that has a namespace import.'')
      else Inr (declaration\<lparr>getNamedImports := getNamedImports declaration @ [namedImport]\<rparr>))"

text \<open>
  The loop over \<open>options.namedImports\<close>. \<open>existingNamedImports\<close> is read once,
  before the loop. The result is the declaration as the loop leaves it, and the error
  if a call threw.
\<close>

fun addMissingNamedImports ::
  "string list \<Rightarrow> string list \<Rightarrow> importDeclaration \<Rightarrow> importDeclaration \<times> error option" where
  "addMissingNamedImports existingNamedImports [] declaration = (declaration, None)"
| "addMissingNamedImports existingNamedImports (namedImport # rest) declaration =
     (if find (\<lambda>ni. ni = namedImport) existingNamedImports = None
      then (case addNamedImport declaration namedImport of
              Inl err \<Rightarrow> (declaration, Some err)
            | Inr declaration' \<Rightarrow> addMissingNamedImports existingNamedImports rest declaration')
      else addMissingNamedImports existingNamedImports rest declaration)"

text \<open>The else branch, on the declaration found.\<close>

definition mergeIntoExisting ::
  "addImportsOptions \<Rightarrow> importDeclaration \<Rightarrow> importDeclaration \<times> error option" where
  "mergeIntoExisting options existingDeclaration =
     (case (case namespaceImport options of
              Some text \<Rightarrow>
                (if text \<noteq> [] \<and> getNamespaceImport existingDeclaration = None \<and>
                    getDefaultImport existingDeclaration = None
                 then setNamespaceImport existingDeclaration text
                 else Inr existingDeclaration)
            | None \<Rightarrow> Inr existingDeclaration) of
        Inl err \<Rightarrow> (existingDeclaration, Some err)
      | Inr declaration \<Rightarrow>
          (case namedImports options of
             None \<Rightarrow> (declaration, None)
           | Some names \<Rightarrow>
               addMissingNamedImports (getNamedImports declaration) names declaration))"

text \<open>
  The declaration is changed in place: it is the first import declaration of the file
  that the predicate accepts.
\<close>

fun update_first_import ::
  "(importDeclaration \<Rightarrow> bool) \<Rightarrow> (importDeclaration \<Rightarrow> importDeclaration \<times> error option)
     \<Rightarrow> statement list \<Rightarrow> statement list \<times> error option" where
  "update_first_import P f [] = ([], None)"
| "update_first_import P f (OtherStatement t # rest) =
     (case update_first_import P f rest of (rest', err) \<Rightarrow> (OtherStatement t # rest', err))"
| "update_first_import P f (ImportDeclaration d # rest) =
     (if P d then (case f d of (d', err) \<Rightarrow> (ImportDeclaration d' # rest, err))
      else (case update_first_import P f rest of
              (rest', err) \<Rightarrow> (ImportDeclaration d # rest', err)))"

text \<open>
  The function returns nothing: its result here is the source file as the call leaves
  it, and the error if the call threw.
\<close>

definition addImportsToFile ::
  "sourceFile \<Rightarrow> addImportsOptions \<Rightarrow> sourceFile \<times> error option" where
  "addImportsToFile sourceFile options =
     (let existingDeclaration =
            find (matchesModuleSpecifier (moduleSpecifier options))
                 (getImportDeclarations sourceFile);
          moduleSpecifierString = getModuleSpecifierString (moduleSpecifier options) sourceFile
      in case existingDeclaration of
           None \<Rightarrow>
             (case addImportDeclaration sourceFile
                     \<lparr>getModuleSpecifier = moduleSpecifierString,
                      getDefaultImport = None,
                      getNamespaceImport =
                        (if truthy (namespaceImport options) then namespaceImport options
                         else None),
                      getNamedImports =
                        (case namedImports options of None \<Rightarrow> [] | Some names \<Rightarrow> names)\<rparr> of
                Inl err \<Rightarrow> (sourceFile, Some err)
              | Inr (childIndex, added) \<Rightarrow>
                  (case order options of
                     None \<Rightarrow> (added, None)
                   | Some ord \<Rightarrow>
                       (case setOrder (getStatements added) childIndex ord of
                          Inl err \<Rightarrow> (added, Some err)
                        | Inr statements \<Rightarrow> (added\<lparr>getStatements := statements\<rparr>, None))))
         | Some _ \<Rightarrow>
             (case update_first_import (matchesModuleSpecifier (moduleSpecifier options))
                     (mergeIntoExisting options) (getStatements sourceFile) of
                (statements, err) \<Rightarrow> (sourceFile\<lparr>getStatements := statements\<rparr>, err)))"

subsection \<open>createFile\<close>

text \<open>
  A call returns, throws, or ends the process with an exit status after the messages it
  logged.
\<close>

datatype 'a outcome = Returned 'a | Thrown error | Exited nat "string list"

definition createFile :: "env \<Rightarrow> project \<Rightarrow> string \<Rightarrow> (sourceFile \<times> project) outcome" where
  "createFile e p templatePath =
     (case readFileSync e templatePath of
        None \<Rightarrow> Thrown (FileSystemError templatePath)
      | Some template \<Rightarrow>
          (case createSourceFile e p (path_join [''/.vendure-cli-temp/'', templatePath])
                  template True of
             Inr r \<Rightarrow> Returned r
           | Inl err \<Rightarrow> Exited 1 [message err]))"

subsection \<open>kebabize\<close>

text \<open>The first argument is the case mapping of the platform.\<close>

definition kebabize :: "caseMapping \<Rightarrow> jsstring \<Rightarrow> jsstring" where
  "kebabize cm str =
     concat (map (\<lambda>(idx, letter).
                    if toUpperCase cm letter = letter
                    then (if idx \<noteq> 0 then js ''-'' else []) @ toLowerCase cm letter
                    else letter)
                 (enumerate 0 (split_chars str)))"

section \<open>LocaleDatePipe\<close>

text \<open>
  A value of type \<open>unknown\<close>, as far as \<open>transform\<close> tells values apart: a
  \<open>Date\<close> instance, a string, \<open>undefined\<close>, or anything else. A date is one the
  caller passes (with its time value) or the result of \<open>new Date(s)\<close> for a string. The
  call \<open>new Intl.DateTimeFormat(locale, options).format(date)\<close> belongs to the platform
  and is kept as a term of its three arguments.
\<close>

datatype date = DateInstance int | NewDate string

datatype unknown = Undefined | DateValue date | StringValue string | OtherValue

record dateTimeFormatOptions =
  month :: "string option"
  year :: "string option"
  day :: "string option"
  hour :: "string option"
  minute :: "string option"
  second :: "string option"
  hour12 :: "bool option"

datatype formatted =
  DateTimeFormat_format "string option" "dateTimeFormatOptions option" date

record localeDatePipe =
  this_locale :: "string option"

text \<open>
  The pipe as the constructor leaves it, and the subscriber that stores the language
  code of the UI state with every underscore replaced by a hyphen.
\<close>

definition newLocaleDatePipe :: localeDatePipe where
  "newLocaleDatePipe = \<lparr>this_locale = None\<rparr>"

definition onLanguageCode :: "localeDatePipe \<Rightarrow> string \<Rightarrow> localeDatePipe" where
  "onLanguageCode pipe languageCode =
     pipe\<lparr>this_locale := Some (map (\<lambda>c. if c = CHR ''_'' then CHR ''-'' else c) languageCode)\<rparr>"

definition getOptionsForFormat :: "string \<Rightarrow> dateTimeFormatOptions option" where
  "getOptionsForFormat dateFormat =
     (if dateFormat = ''medium'' then
        Some \<lparr>month = Some ''short'', year = Some ''numeric'', day = Some ''numeric'',
              hour = Some ''numeric'', minute = Some ''numeric'', second = Some ''numeric'',
              hour12 = Some True\<rparr>
      else if dateFormat = ''mediumTime'' then
        Some \<lparr>month = None, year = None, day = None,
              hour = Some ''numeric'', minute = Some ''numeric'', second = Some ''numeric'',
              hour12 = Some True\<rparr>
      else if dateFormat = ''longDate'' then
        Some \<lparr>month = Some ''long'', year = Some ''numeric'', day = Some ''numeric'',
              hour = None, minute = None, second = None, hour12 = None\<rparr>
      else if dateFormat = ''short'' then
        Some \<lparr>month = Some ''numeric'', year = Some ''2-digit'', day = Some ''numeric'',
              hour = Some ''numeric'', minute = Some ''numeric'', second = None,
              hour12 = Some True\<rparr>
      else None)"

text \<open>\<open>const [format, locale] = args\<close>: an argument that is not given is \<open>undefined\<close>.\<close>

definition arg :: "unknown list \<Rightarrow> nat \<Rightarrow> unknown" where
  "arg args i = (if i < length args then args ! i else Undefined)"

fun isString :: "unknown \<Rightarrow> bool" where
  "isString (StringValue _) = True"
| "isString _ = False"

text \<open>\<open>value instanceof Date\<close>.\<close>

fun isDate :: "unknown \<Rightarrow> bool" where
  "isDate (DateValue _) = True"
| "isDate _ = False"

definition transform :: "localeDatePipe \<Rightarrow> unknown \<Rightarrow> unknown list \<Rightarrow> formatted option" where
  "transform pipe val args =
     (let format = arg args 0;
          localeArg = arg args 1
      in if truthy (this_locale pipe) \<or> isString localeArg then
           (let activeLocale = (case localeArg of StringValue l \<Rightarrow> Some l | _ \<Rightarrow> this_locale pipe);
                date = (case val of
                          DateValue d \<Rightarrow> Some d
                        | StringValue s \<Rightarrow> Some (NewDate s)
                        | _ \<Rightarrow> None)
            in case date of
                 Some d \<Rightarrow>
                   (let options = getOptionsForFormat
                                    (case format of StringValue f \<Rightarrow> f | _ \<Rightarrow> ''medium'')
                    in Some (DateTimeFormat_format activeLocale options d))
               | None \<Rightarrow> None)
         else None)"

section \<open>The specification's wording, and auxiliary definitions\<close>

text \<open>
  The case converter as the specification words it: every character is lowercased, and
  a hyphen is inserted before every uppercase character that is not the first
  character of the string. What an uppercase character is, is its second argument.
\<close>

definition kebabize_spec :: "caseMapping \<Rightarrow> (nat \<Rightarrow> bool) \<Rightarrow> jsstring \<Rightarrow> jsstring" where
  "kebabize_spec cm isUpperCase s =
     concat (map (\<lambda>(idx, c).
                    (if isUpperCase c \<and> idx \<noteq> 0 then js ''-'' else []) @ toLowerCase cm [c])
                 (enumerate 0 s))"

text \<open>
  A character on which the code and the wording agree after the first place: an
  uppercase character that uppercasing leaves as it is, or a character that is not
  uppercase, that uppercasing changes and that lowercasing leaves as it is. At the first
  place they agree on a character that one of the two mappings leaves as it is.
\<close>

definition cased_alike :: "caseMapping \<Rightarrow> (nat \<Rightarrow> bool) \<Rightarrow> nat \<Rightarrow> bool" where
  "cased_alike cm isUpperCase c \<longleftrightarrow>
     (toUpperCase cm [c] = [c] \<and> isUpperCase c) \<or>
     (toUpperCase cm [c] \<noteq> [c] \<and> \<not> isUpperCase c \<and> toLowerCase cm [c] = [c])"

definition first_cased_alike :: "caseMapping \<Rightarrow> jsstring \<Rightarrow> bool" where
  "first_cased_alike cm s =
     (case s of [] \<Rightarrow> True
      | c # _ \<Rightarrow> toUpperCase cm [c] = [c] \<or> toLowerCase cm [c] = [c])"

definition isAscii :: "nat \<Rightarrow> bool" where
  "isAscii u = (u < 128)"

definition isAsciiLetter :: "nat \<Rightarrow> bool" where
  "isAsciiLetter u = ((65 \<le> u \<and> u \<le> 90) \<or> (97 \<le> u \<and> u \<le> 122))"

text \<open>Both converters on a part of a string that starts at index \<open>n\<close>.\<close>

definition kebabize_from :: "caseMapping \<Rightarrow> nat \<Rightarrow> jsstring \<Rightarrow> jsstring" where
  "kebabize_from cm n str =
     concat (map (\<lambda>(idx, letter).
                    if toUpperCase cm letter = letter
                    then (if idx \<noteq> 0 then js ''-'' else []) @ toLowerCase cm letter
                    else letter)
                 (enumerate n (split_chars str)))"

definition kebabize_spec_from ::
  "caseMapping \<Rightarrow> (nat \<Rightarrow> bool) \<Rightarrow> nat \<Rightarrow> jsstring \<Rightarrow> jsstring" where
  "kebabize_spec_from cm isUpperCase n s =
     concat (map (\<lambda>(idx, c).
                    (if isUpperCase c \<and> idx \<noteq> 0 then js ''-'' else []) @ toLowerCase cm [c])
                 (enumerate n s))"

text \<open>
  A case mapping for the examples. It is the platform's on the ASCII range, on
  \<open>U+00E9\<close> and \<open>U+00C9\<close> (the letter e with an acute accent, small and capital) and on
  \<open>U+00DF\<close> (the sharp s, whose uppercase form is \<open>SS\<close>), and it leaves every other
  code unit as it is.
\<close>

definition sample_upper :: "nat \<Rightarrow> jsstring" where
  "sample_upper u = (if u = 233 then [201] else if u = 223 then [83, 83] else [ascii_upper u])"

definition sample_lower :: "nat \<Rightarrow> jsstring" where
  "sample_lower u = (if u = 201 then [233] else [ascii_lower u])"

definition sample_caseMapping :: caseMapping where
  "sample_caseMapping =
     \<lparr>toUpperCase = (\<lambda>s. concat (map sample_upper s)),
      toLowerCase = (\<lambda>s. concat (map sample_lower s))\<rparr>"

definition sample_isUpperCase :: "nat \<Rightarrow> bool" where
  "sample_isUpperCase u = ((65 \<le> u \<and> u \<le> 90) \<or> u = 201)"

text \<open>Two source files of one directory, for the examples of the import editor.\<close>

definition file_a :: sourceFile where
  "file_a = \<lparr>getFilePath = ''/proj/src/a.ts'', getFullText = [], getStatements = [],
            getVariableDeclarations = []\<rparr>"

definition file_b :: sourceFile where
  "file_b = \<lparr>getFilePath = ''/proj/src/b.ts'', getFullText = [], getStatements = [],
            getVariableDeclarations = []\<rparr>"

text \<open>
  A source file with two variable declarations, the second of type \<open>VendureConfig\<close>
  with an object literal as its initializer, for the examples of the config locator.
\<close>

definition config_file :: "string \<Rightarrow> string \<Rightarrow> sourceFile" where
  "config_file filePath init =
     \<lparr>getFilePath = filePath, getFullText = [], getStatements = [],
      getVariableDeclarations =
        [\<lparr>getTypeText = ''string'', getChildren = [OtherNode ''name'', OtherNode ''x'']\<rparr>,
         \<lparr>getTypeText = ''VendureConfig'',
          getChildren = [OtherNode ''config'', OtherNode ''VendureConfig'',
                         ObjectLiteralExpression init]\<rparr>]\<rparr>"

section \<open>The case converter\<close>

lemma js_examples:
  "js ''-'' = [45]" "js ''fooBar'' = [102, 111, 111, 66, 97, 114]"
  "js ''FooBar'' = [70, 111, 111, 66, 97, 114]" "js ''foo-bar'' = [102, 111, 111, 45, 98, 97, 114]"
  "js [] = []" "js ''abc'' = [97, 98, 99]" "js ''foo1'' = [102, 111, 111, 49]"
  "js ''foo-1'' = [102, 111, 111, 45, 49]" "js ''a-b'' = [97, 45, 98]" "js ''a--b'' = [97, 45, 45, 98]"
  by (simp_all add: js_def)

lemma ascii_units:
  assumes "agrees_with_ascii cm up" "u < 128"
  shows "toUpperCase cm [u] = [ascii_upper u]" "toLowerCase cm [u] = [ascii_lower u]"
    "up u \<longleftrightarrow> 65 \<le> u \<and> u \<le> 90"
  using assms by (simp_all add: agrees_with_ascii_def)

lemma ascii_upper_fixed: "ascii_upper u = u \<longleftrightarrow> \<not> (97 \<le> u \<and> u \<le> 122)"
  by (auto simp: ascii_upper_def)

lemma kebabize_from_0: "kebabize cm s = kebabize_from cm 0 s"
  by (simp add: kebabize_def kebabize_from_def)

lemma kebabize_spec_from_0: "kebabize_spec cm up s = kebabize_spec_from cm up 0 s"
  by (simp add: kebabize_spec_def kebabize_spec_from_def)

lemma kebabize_from_Nil: "kebabize_from cm n [] = []"
  by (simp add: kebabize_from_def split_chars_def)

lemma kebabize_from_Cons:
  "kebabize_from cm n (c # s) =
     (if toUpperCase cm [c] = [c] then (if n \<noteq> 0 then js ''-'' else []) @ toLowerCase cm [c]
      else [c]) @ kebabize_from cm (Suc n) s"
  by (simp add: kebabize_from_def split_chars_def)

lemma kebabize_from_append:
  "kebabize_from cm n (s @ t) = kebabize_from cm n s @ kebabize_from cm (n + length s) t"
  by (simp add: kebabize_from_def split_chars_def enumerate_append_eq)

lemma kebabize_spec_from_Nil: "kebabize_spec_from cm up n [] = []"
  by (simp add: kebabize_spec_from_def)

lemma kebabize_spec_from_Cons:
  "kebabize_spec_from cm up n (c # s) =
     (if up c \<and> n \<noteq> 0 then js ''-'' else []) @ toLowerCase cm [c]
       @ kebabize_spec_from cm up (Suc n) s"
  by (simp add: kebabize_spec_from_def)

lemma kebabize_from_ascii_Cons:
  assumes "agrees_with_ascii cm up" "c < 128"
  shows "kebabize_from cm n (c # s) =
     (if 97 \<le> c \<and> c \<le> 122 then [c]
      else (if n \<noteq> 0 then [45] else []) @ [ascii_lower c]) @ kebabize_from cm (Suc n) s"
  using ascii_units [OF assms] ascii_upper_fixed [of c]
  by (simp add: kebabize_from_Cons js_examples)

lemma kebabize_spec_from_ascii_Cons:
  assumes "agrees_with_ascii cm up" "c < 128"
  shows "kebabize_spec_from cm up n (c # s) =
     (if 65 \<le> c \<and> c \<le> 90 \<and> n \<noteq> 0 then [45] else []) @ [ascii_lower c]
       @ kebabize_spec_from cm up (Suc n) s"
  using ascii_units [OF assms]
  by (simp add: kebabize_spec_from_Cons js_examples)

lemma kebabize_from_cased_alike:
  "0 < n \<Longrightarrow> list_all (cased_alike cm up) s \<Longrightarrow> kebabize_from cm n s = kebabize_spec_from cm up n s"
proof (induction s arbitrary: n)
  case Nil
  then show ?case by (simp add: kebabize_from_Nil kebabize_spec_from_Nil)
next
  case (Cons c s)
  from Cons.prems have c: "cased_alike cm up c" and s: "list_all (cased_alike cm up) s"
    by simp_all
  have ih: "kebabize_from cm (Suc n) s = kebabize_spec_from cm up (Suc n) s"
    using s by (intro Cons.IH) simp_all
  from c have "(toUpperCase cm [c] = [c] \<and> up c) \<or>
      (toUpperCase cm [c] \<noteq> [c] \<and> \<not> up c \<and> toLowerCase cm [c] = [c])"
    by (simp add: cased_alike_def)
  then show ?case
    using Cons.prems(1) by (auto simp: kebabize_from_Cons kebabize_spec_from_Cons ih)
qed

lemma kebabize_eq_spec_if:
  assumes "first_cased_alike cm s" "list_all (cased_alike cm up) (tl s)"
  shows "kebabize cm s = kebabize_spec cm up s"
proof (cases s)
  case Nil
  then show ?thesis by (simp add: kebabize_def kebabize_spec_def split_chars_def)
next
  case (Cons c t)
  with assms have "toUpperCase cm [c] = [c] \<or> toLowerCase cm [c] = [c]"
    "kebabize_from cm (Suc 0) t = kebabize_spec_from cm up (Suc 0) t"
    by (simp_all add: first_cased_alike_def kebabize_from_cased_alike)
  then show ?thesis
    by (auto simp: Cons kebabize_from_0 kebabize_spec_from_0 kebabize_from_Cons
        kebabize_spec_from_Cons)
qed

lemma length_kebabize_from_ascii:
  assumes "agrees_with_ascii cm up"
  shows "0 < n \<Longrightarrow> list_all isAscii s \<Longrightarrow> length (kebabize_from cm n s) =
     length s + length (filter (\<lambda>c. \<not> (97 \<le> c \<and> c \<le> 122)) s)"
proof (induction s arbitrary: n)
  case Nil
  then show ?case by (simp add: kebabize_from_Nil)
next
  case (Cons c s)
  then show ?case
    by (simp add: kebabize_from_ascii_Cons [OF assms] isAscii_def)
qed

lemma length_kebabize_spec_from_ascii:
  assumes "agrees_with_ascii cm up"
  shows "0 < n \<Longrightarrow> list_all isAscii s \<Longrightarrow> length (kebabize_spec_from cm up n s) =
     length s + length (filter (\<lambda>c. 65 \<le> c \<and> c \<le> 90) s)"
proof (induction s arbitrary: n)
  case Nil
  then show ?case by (simp add: kebabize_spec_from_Nil)
next
  case (Cons c s)
  then show ?case
    by (simp add: kebabize_spec_from_ascii_Cons [OF assms] isAscii_def)
qed

lemma filter_length_mono:
  "(\<And>x. Q x \<Longrightarrow> P x) \<Longrightarrow> length (filter Q xs) \<le> length (filter P xs)"
  by (induction xs) auto

lemma filter_length_eq_imp:
  "length (filter P xs) = length (filter Q xs) \<Longrightarrow> (\<And>x. Q x \<Longrightarrow> P x)
     \<Longrightarrow> list_all (\<lambda>x. P x \<longrightarrow> Q x) xs"
proof (induction xs)
  case Nil
  then show ?case by simp
next
  case (Cons x xs)
  have le: "length (filter Q xs) \<le> length (filter P xs)"
    using Cons.prems(2) by (rule filter_length_mono)
  show ?case
  proof (cases "P x")
    case True
    show ?thesis
    proof (cases "Q x")
      case True
      with \<open>P x\<close> Cons show ?thesis by simp
    next
      case False
      with \<open>P x\<close> Cons.prems(1) le show ?thesis by simp
    qed
  next
    case False
    then have "\<not> Q x" using Cons.prems(2) by blast
    with False Cons show ?thesis by simp
  qed
qed

lemma ascii_letter_cased_alike:
  assumes "agrees_with_ascii cm up" "c < 128"
  shows "cased_alike cm up c \<longleftrightarrow> isAsciiLetter c"
  using ascii_units [OF assms] ascii_upper_fixed [of c]
  by (auto simp: cased_alike_def isAsciiLetter_def ascii_lower_def)

lemma ascii_first_cased_alike:
  assumes "agrees_with_ascii cm up" "list_all isAscii s"
  shows "first_cased_alike cm s"
proof (cases s)
  case Nil
  then show ?thesis by (simp add: first_cased_alike_def)
next
  case (Cons c t)
  with assms(2) have "c < 128" by (simp add: isAscii_def)
  from ascii_units [OF assms(1) this] show ?thesis
    by (auto simp: Cons first_cased_alike_def ascii_upper_def ascii_lower_def)
qed

lemma kebabize_eq_spec_ascii_iff:
  assumes ag: "agrees_with_ascii cm up" and asc: "list_all isAscii s"
  shows "kebabize cm s = kebabize_spec cm up s \<longleftrightarrow> list_all isAsciiLetter (tl s)"
proof
  assume letters: "list_all isAsciiLetter (tl s)"
  have "list_all isAscii (tl s)" using asc by (cases s) simp_all
  with letters have "list_all (cased_alike cm up) (tl s)"
    using ascii_letter_cased_alike [OF ag] by (auto simp: list_all_iff isAscii_def)
  with ascii_first_cased_alike [OF ag asc] show "kebabize cm s = kebabize_spec cm up s"
    by (rule kebabize_eq_spec_if)
next
  assume eq: "kebabize cm s = kebabize_spec cm up s"
  show "list_all isAsciiLetter (tl s)"
  proof (cases s)
    case Nil
    then show ?thesis by simp
  next
    case (Cons c t)
    with asc have c: "c < 128" and t: "list_all isAscii t" by (simp_all add: isAscii_def)
    have "kebabize_from cm (Suc 0) t = kebabize_spec_from cm up (Suc 0) t"
      using eq ascii_units [OF ag c]
      by (auto simp: Cons kebabize_from_0 kebabize_spec_from_0 kebabize_from_ascii_Cons [OF ag c]
          kebabize_spec_from_ascii_Cons [OF ag c] ascii_lower_def split: if_splits)
    then have "length (filter (\<lambda>c. \<not> (97 \<le> c \<and> c \<le> 122)) t)
                 = length (filter (\<lambda>c. 65 \<le> c \<and> c \<le> 90) t)"
      using length_kebabize_from_ascii [OF ag _ t, of "Suc 0"]
        length_kebabize_spec_from_ascii [OF ag _ t, of "Suc 0"] by simp
    then have "list_all (\<lambda>c. \<not> (97 \<le> c \<and> c \<le> 122) \<longrightarrow> 65 \<le> c \<and> c \<le> 90) t"
      by (rule filter_length_eq_imp) auto
    then show ?thesis
      by (auto simp: Cons list_all_iff isAsciiLetter_def)
  qed
qed

lemma kebabize_ascii_examples:
  assumes "agrees_with_ascii cm up"
  shows "kebabize cm (js ''fooBar'') = js ''foo-bar''" "kebabize cm (js ''FooBar'') = js ''foo-bar''"
    "kebabize cm (js []) = js []" "kebabize cm (js ''abc'') = js ''abc''"
    "kebabize cm (js ''foo1'') = js ''foo-1''" "kebabize cm (js ''a-b'') = js ''a--b''"
  by (simp_all add: js_examples kebabize_from_0 kebabize_from_ascii_Cons [OF assms]
      kebabize_from_Nil ascii_lower_def)

lemma kebabize_spec_foo1:
  assumes "agrees_with_ascii cm up"
  shows "kebabize_spec cm up (js ''foo1'') = js ''foo1''"
  by (simp add: js_examples kebabize_spec_from_0 kebabize_spec_from_ascii_Cons [OF assms]
      kebabize_spec_from_Nil ascii_lower_def)

lemma sample_agrees: "agrees_with_ascii sample_caseMapping sample_isUpperCase"
  by (auto simp: agrees_with_ascii_def sample_caseMapping_def sample_upper_def sample_lower_def
      sample_isUpperCase_def ascii_upper_def ascii_lower_def)

lemma kebabize_snoc:
  "kebabize cm (s @ [c]) =
     kebabize cm s @
     (if toUpperCase cm [c] = [c] then (if s \<noteq> [] then js ''-'' else []) @ toLowerCase cm [c]
      else [c])"
  by (simp add: kebabize_from_0 kebabize_from_append kebabize_from_Cons kebabize_from_Nil)

lemma sample_units:
  "toUpperCase sample_caseMapping [u] = sample_upper u"
  "toLowerCase sample_caseMapping [u] = sample_lower u"
  by (simp_all add: sample_caseMapping_def)

lemma kebabize_sample_examples:
  "kebabize sample_caseMapping (js ''caf'' @ [233]) = js ''caf'' @ [233]"
  "kebabize sample_caseMapping (js ''foo'' @ [201]) = js ''foo-'' @ [233]"
  by (simp_all add: js_def kebabize_from_0 kebabize_from_Cons kebabize_from_Nil sample_units
      sample_upper_def sample_lower_def ascii_upper_def ascii_lower_def)

lemma cafe_cased_alike:
  "first_cased_alike sample_caseMapping (js ''caf'' @ [233])"
  "list_all (cased_alike sample_caseMapping sample_isUpperCase) (tl (js ''caf'' @ [233]))"
  by (simp_all add: js_def first_cased_alike_def cased_alike_def sample_units sample_upper_def
      sample_lower_def sample_isUpperCase_def ascii_upper_def ascii_lower_def)

lemma fooBar_ascii_letters:
  "list_all isAscii (js ''fooBar'')" "list_all isAsciiLetter (tl (js ''fooBar''))"
  by (simp_all add: js_examples isAscii_def isAsciiLetter_def)

text \<open>
  Claim C3, as stated, fails: the code tests \<open>letter.toUpperCase() === letter\<close>, which
  a digit passes, so \<open>kebabize("foo1")\<close> is \<open>"foo-1"\<close>, while lowercasing
  \<open>"foo1"\<close> and putting a hyphen before its uppercase characters gives \<open>"foo1"\<close>.
\<close>

theorem kebabize_digit_counterexample:
  "kebabize sample_caseMapping (js ''foo1'') = js ''foo-1'' \<and>
   kebabize_spec sample_caseMapping sample_isUpperCase (js ''foo1'') = js ''foo1'' \<and>
   js ''foo-1'' \<noteq> js ''foo1''"
  by (simp add: kebabize_ascii_examples [OF sample_agrees] kebabize_spec_foo1 [OF sample_agrees])
    (simp add: js_examples)

text \<open>
  Claim C3, amended. \<open>kebabize(s)\<close> is the string obtained by lowercasing every
  character of \<open>s\<close> and inserting a hyphen before every uppercase character but the
  first character of the string, whenever the first character of \<open>s\<close> is left as it is
  by \<open>toUpperCase\<close> or by \<open>toLowerCase\<close> and every later character is either an
  uppercase character that \<open>toUpperCase\<close> leaves as it is, or a character that is not
  uppercase, that \<open>toUpperCase\<close> changes and that \<open>toLowerCase\<close> leaves as it is.
  For a string of ASCII characters this is so exactly when every character after the
  first is a letter. The four examples of the claim hold. Of the case mappings and of
  the notion of uppercase character, only their behaviour on the ASCII range is
  assumed, and only for the last two statements.
\<close>

theorem kebabize_eq_spec_when_cased_alike:
  "(first_cased_alike cm s \<and> list_all (cased_alike cm isUpperCase) (tl s) \<longrightarrow>
      kebabize cm s = kebabize_spec cm isUpperCase s) \<and>
   (agrees_with_ascii cm isUpperCase \<and> list_all isAscii s \<longrightarrow>
      (kebabize cm s = kebabize_spec cm isUpperCase s \<longleftrightarrow> list_all isAsciiLetter (tl s))) \<and>
   (agrees_with_ascii cm isUpperCase \<longrightarrow>
      kebabize cm (js ''fooBar'') = js ''foo-bar'' \<and> kebabize cm (js ''FooBar'') = js ''foo-bar'' \<and>
      kebabize cm (js []) = js [] \<and> kebabize cm (js ''abc'') = js ''abc'')"
proof (intro conjI impI)
  assume "first_cased_alike cm s \<and> list_all (cased_alike cm isUpperCase) (tl s)"
  then show "kebabize cm s = kebabize_spec cm isUpperCase s"
    using kebabize_eq_spec_if [of cm s isUpperCase] by simp
next
  assume "agrees_with_ascii cm isUpperCase \<and> list_all isAscii s"
  then show "kebabize cm s = kebabize_spec cm isUpperCase s \<longleftrightarrow> list_all isAsciiLetter (tl s)"
    using kebabize_eq_spec_ascii_iff [of cm isUpperCase s] by simp
next
  assume ag: "agrees_with_ascii cm isUpperCase"
  show "kebabize cm (js ''fooBar'') = js ''foo-bar''" "kebabize cm (js ''FooBar'') = js ''foo-bar''"
    "kebabize cm (js []) = js []" "kebabize cm (js ''abc'') = js ''abc''"
    by (rule kebabize_ascii_examples [OF ag])+
qed

theorem kebabize_eq_spec_when_cased_alike_witness:
  "kebabize sample_caseMapping (js ''caf'' @ [233])
     = kebabize_spec sample_caseMapping sample_isUpperCase (js ''caf'' @ [233]) \<and>
   kebabize sample_caseMapping (js ''fooBar'')
     = kebabize_spec sample_caseMapping sample_isUpperCase (js ''fooBar'') \<and>
   kebabize sample_caseMapping (js ''abc'') = js ''abc''"
  using
    kebabize_eq_spec_when_cased_alike
      [of sample_caseMapping "js ''caf'' @ [233]" sample_isUpperCase]
    kebabize_eq_spec_when_cased_alike
      [of sample_caseMapping "js ''fooBar''" sample_isUpperCase]
    cafe_cased_alike fooBar_ascii_letters sample_agrees
  by simp

text \<open>
  Claim C9: the output for the first \<open>i + 1\<close> characters of \<open>s\<close> is the output for the
  first \<open>i\<close> characters followed, when the character at \<open>i\<close> is unchanged by
  uppercasing, by a hyphen if \<open>i > 0\<close> and by that character lowercased, and
  otherwise by the character itself: for \<open>i > 0\<close> the hyphen is inserted if and only
  if the character is unchanged by uppercasing. An ASCII character is unchanged by
  uppercasing unless it is a lowercase letter, so digits, punctuation and white space
  get the hyphen as uppercase letters do: \<open>kebabize("foo1")\<close> is \<open>"foo-1"\<close> and
  \<open>kebabize("a-b")\<close> is \<open>"a--b"\<close>.
\<close>

theorem kebabize_hyphen_iff_fixed_by_uppercase:
  "i < length s \<Longrightarrow>
     kebabize cm (take (Suc i) s) =
       kebabize cm (take i s) @
       (if toUpperCase cm [s ! i] = [s ! i]
        then (if 0 < i then js ''-'' else []) @ toLowerCase cm [s ! i]
        else [s ! i]) \<and>
     (agrees_with_ascii cm isUpperCase \<and> u < 128 \<longrightarrow>
        (toUpperCase cm [u] = [u] \<longleftrightarrow> \<not> (97 \<le> u \<and> u \<le> 122))) \<and>
     (agrees_with_ascii cm isUpperCase \<longrightarrow>
        kebabize cm (js ''foo1'') = js ''foo-1'' \<and> kebabize cm (js ''a-b'') = js ''a--b'')"
proof (intro conjI impI)
  assume i: "i < length s"
  then have "s \<noteq> []" by auto
  then show "kebabize cm (take (Suc i) s) =
       kebabize cm (take i s) @
       (if toUpperCase cm [s ! i] = [s ! i]
        then (if 0 < i then js ''-'' else []) @ toLowerCase cm [s ! i]
        else [s ! i])"
    using i kebabize_snoc [of cm "take i s" "s ! i"] by (simp add: take_Suc_conv_app_nth)
next
  assume "agrees_with_ascii cm isUpperCase \<and> u < 128"
  then show "toUpperCase cm [u] = [u] \<longleftrightarrow> \<not> (97 \<le> u \<and> u \<le> 122)"
    using ascii_units(1) [of cm isUpperCase u] ascii_upper_fixed [of u] by simp
next
  assume ag: "agrees_with_ascii cm isUpperCase"
  show "kebabize cm (js ''foo1'') = js ''foo-1''" "kebabize cm (js ''a-b'') = js ''a--b''"
    by (rule kebabize_ascii_examples [OF ag])+
qed

theorem kebabize_hyphen_iff_fixed_by_uppercase_witness:
  "(3::nat) < length (js ''foo1'') \<and>
   kebabize sample_caseMapping (take (Suc 3) (js ''foo1''))
     = kebabize sample_caseMapping (take 3 (js ''foo1'')) @ js ''-'' @ js ''1'' \<and>
   toUpperCase sample_caseMapping (js ''1'') = js ''1'' \<and>
   kebabize sample_caseMapping (js ''foo1'') = js ''foo-1''"
proof -
  have h: "(3::nat) < length (js ''foo1'')" by (simp add: js_def)
  have one: "js ''1'' = [49]" "js ''foo1'' ! 3 = 49" by (simp_all add: js_def)
  have units: "toUpperCase sample_caseMapping [49] = [49]"
    "toLowerCase sample_caseMapping [49] = [49]"
    by (simp_all add: sample_units sample_upper_def sample_lower_def ascii_upper_def
        ascii_lower_def)
  show ?thesis
    using h kebabize_hyphen_iff_fixed_by_uppercase
        [OF h, of sample_caseMapping sample_isUpperCase 49] sample_agrees
    by (simp add: one units)
qed

section \<open>The date pipe\<close>

lemma transform_no_locale:
  "\<not> truthy (this_locale pipe) \<Longrightarrow> \<not> isString (arg args 1) \<Longrightarrow> transform pipe val args = None"
  by (simp add: transform_def Let_def)

lemma transform_no_date:
  "\<not> isDate val \<Longrightarrow> \<not> isString val \<Longrightarrow> transform pipe val args = None"
  by (cases val) (simp_all add: transform_def Let_def)

lemma transform_date:
  "truthy (this_locale pipe) \<or> isString (arg args 1) \<Longrightarrow>
   transform pipe (DateValue d) args =
     Some (DateTimeFormat_format
             (case arg args 1 of StringValue l \<Rightarrow> Some l | _ \<Rightarrow> this_locale pipe)
             (getOptionsForFormat (case arg args 0 of StringValue f \<Rightarrow> f | _ \<Rightarrow> ''medium''))
             d)"
  by (simp add: transform_def Let_def)

lemma transform_string:
  "truthy (this_locale pipe) \<or> isString (arg args 1) \<Longrightarrow>
   transform pipe (StringValue s) args =
     Some (DateTimeFormat_format
             (case arg args 1 of StringValue l \<Rightarrow> Some l | _ \<Rightarrow> this_locale pipe)
             (getOptionsForFormat (case arg args 0 of StringValue f \<Rightarrow> f | _ \<Rightarrow> ''medium''))
             (NewDate s))"
  by (simp add: transform_def Let_def)

lemma getOptionsForFormat_unrecognized:
  "f \<notin> set [''medium'', ''mediumTime'', ''longDate'', ''short''] \<Longrightarrow> getOptionsForFormat f = None"
  by (simp add: getOptionsForFormat_def)

lemma getOptionsForFormat_names:
  "getOptionsForFormat ''medium'' =
     Some \<lparr>month = Some ''short'', year = Some ''numeric'', day = Some ''numeric'',
           hour = Some ''numeric'', minute = Some ''numeric'', second = Some ''numeric'',
           hour12 = Some True\<rparr>"
  "getOptionsForFormat ''mediumTime'' =
     Some \<lparr>month = None, year = None, day = None,
           hour = Some ''numeric'', minute = Some ''numeric'', second = Some ''numeric'',
           hour12 = Some True\<rparr>"
  "getOptionsForFormat ''longDate'' =
     Some \<lparr>month = Some ''long'', year = Some ''numeric'', day = Some ''numeric'',
           hour = None, minute = None, second = None, hour12 = None\<rparr>"
  "getOptionsForFormat ''short'' =
     Some \<lparr>month = Some ''numeric'', year = Some ''2-digit'', day = Some ''numeric'',
           hour = Some ''numeric'', minute = Some ''numeric'', second = None,
           hour12 = Some True\<rparr>"
  by (simp_all add: getOptionsForFormat_def)

text \<open>
  Claim C4, as stated, fails in its last part: for a format name that is not one of
  the four, \<open>getOptionsForFormat\<close> returns \<open>undefined\<close>, and \<open>transform\<close> still
  returns \<open>new Intl.DateTimeFormat(activeLocale, undefined).format(date)\<close>: the date
  is formatted, with the platform's default options.
\<close>

theorem transform_unrecognized_format_counterexample:
  "getOptionsForFormat ''bogus'' = None \<and>
   transform \<lparr>this_locale = Some ''en''\<rparr> (DateValue (DateInstance 0)) [StringValue ''bogus'']
     = Some (DateTimeFormat_format (Some ''en'') None (DateInstance 0))"
  by (simp add: transform_def getOptionsForFormat_def truthy_def arg_def)

text \<open>
  Claim C4, amended: with neither a stored locale nor a string locale argument the
  result is \<open>undefined\<close>. With one of them and a value that is a \<open>Date\<close> or a string,
  the result is the platform's formatting of the date (for a string \<open>s\<close>, of
  \<open>new Date(s)\<close>) for the active locale, the string argument if there is one and the
  stored locale otherwise, with the options of the format name, \<open>medium\<close> when the format
  argument is not a string. The four format names map to fixed option sets, and any
  other name maps to no options, with which the date is still formatted.
\<close>

theorem transform_formats_with_options_of_name:
  "(\<not> truthy (this_locale pipe) \<and> \<not> isString (arg args 1) \<longrightarrow> transform pipe val args = None) \<and>
   (truthy (this_locale pipe) \<or> isString (arg args 1) \<longrightarrow>
      transform pipe (DateValue d) args =
        Some (DateTimeFormat_format
                (case arg args 1 of StringValue l \<Rightarrow> Some l | _ \<Rightarrow> this_locale pipe)
                (getOptionsForFormat (case arg args 0 of StringValue f \<Rightarrow> f | _ \<Rightarrow> ''medium''))
                d) \<and>
      transform pipe (StringValue s) args =
        Some (DateTimeFormat_format
                (case arg args 1 of StringValue l \<Rightarrow> Some l | _ \<Rightarrow> this_locale pipe)
                (getOptionsForFormat (case arg args 0 of StringValue f \<Rightarrow> f | _ \<Rightarrow> ''medium''))
                (NewDate s))) \<and>
   getOptionsForFormat ''medium'' =
     Some \<lparr>month = Some ''short'', year = Some ''numeric'', day = Some ''numeric'',
           hour = Some ''numeric'', minute = Some ''numeric'', second = Some ''numeric'',
           hour12 = Some True\<rparr> \<and>
   getOptionsForFormat ''mediumTime'' =
     Some \<lparr>month = None, year = None, day = None,
           hour = Some ''numeric'', minute = Some ''numeric'', second = Some ''numeric'',
           hour12 = Some True\<rparr> \<and>
   getOptionsForFormat ''longDate'' =
     Some \<lparr>month = Some ''long'', year = Some ''numeric'', day = Some ''numeric'',
           hour = None, minute = None, second = None, hour12 = None\<rparr> \<and>
   getOptionsForFormat ''short'' =
     Some \<lparr>month = Some ''numeric'', year = Some ''2-digit'', day = Some ''numeric'',
           hour = Some ''numeric'', minute = Some ''numeric'', second = None,
           hour12 = Some True\<rparr> \<and>
   (name' \<notin> set [''medium'', ''mediumTime'', ''longDate'', ''short''] \<longrightarrow>
      getOptionsForFormat name' = None)"
  using transform_no_locale [of pipe args val] transform_date [of pipe args d]
    transform_string [of pipe args s] getOptionsForFormat_unrecognized [of name']
  by (simp only: getOptionsForFormat_names) blast

theorem transform_formats_with_options_of_name_witness:
  "transform newLocaleDatePipe (DateValue (DateInstance 0)) [StringValue ''short''] = None \<and>
   transform (onLanguageCode newLocaleDatePipe ''en_GB'') (DateValue (DateInstance 0))
       [StringValue ''longDate''] =
     Some (DateTimeFormat_format (Some ''en-GB'')
             (Some \<lparr>month = Some ''long'', year = Some ''numeric'', day = Some ''numeric'',
                    hour = None, minute = None, second = None, hour12 = None\<rparr>)
             (DateInstance 0)) \<and>
   transform newLocaleDatePipe (StringValue ''2020-01-01'') [OtherValue, StringValue ''de''] =
     Some (DateTimeFormat_format (Some ''de'')
             (Some \<lparr>month = Some ''short'', year = Some ''numeric'', day = Some ''numeric'',
                    hour = Some ''numeric'', minute = Some ''numeric'',
                    second = Some ''numeric'', hour12 = Some True\<rparr>)
             (NewDate ''2020-01-01'')) \<and>
   getOptionsForFormat ''bogus'' = None"
  using
    transform_formats_with_options_of_name
      [of newLocaleDatePipe "[StringValue ''short'']" "DateValue (DateInstance 0)"
          "DateInstance 0" "[]" "''bogus''"]
    transform_formats_with_options_of_name
      [of "onLanguageCode newLocaleDatePipe ''en_GB''" "[StringValue ''longDate'']" Undefined
          "DateInstance 0" "[]" "''bogus''"]
    transform_formats_with_options_of_name
      [of newLocaleDatePipe "[OtherValue, StringValue ''de'']" Undefined
          "DateInstance 0" "''2020-01-01''" "''bogus''"]
  by (simp add: newLocaleDatePipe_def onLanguageCode_def truthy_def arg_def)

text \<open>
  Claim C10: for a value that is neither a \<open>Date\<close> nor a string the result is
  \<open>undefined\<close>, whatever the format and locale arguments and the stored locale are,
  and no call to the platform is made; likewise when no locale was stored and the
  locale argument is not a string.
\<close>

theorem transform_undefined_without_date_or_locale:
  "(\<not> isDate val \<and> \<not> isString val \<longrightarrow> transform pipe val args = None) \<and>
   (this_locale pipe = None \<and> \<not> isString (arg args 1) \<longrightarrow> transform pipe val args = None)"
  using transform_no_date [of val pipe args] transform_no_locale [of pipe args val]
  by (simp add: truthy_def)

theorem transform_undefined_without_date_or_locale_witness:
  "transform \<lparr>this_locale = Some ''en''\<rparr> OtherValue [StringValue ''short'', StringValue ''de'']
     = None \<and>
   transform newLocaleDatePipe (DateValue (DateInstance 0)) [StringValue ''short'', Undefined]
     = None"
  using
    transform_undefined_without_date_or_locale
      [of OtherValue "\<lparr>this_locale = Some ''en''\<rparr>" "[StringValue ''short'', StringValue ''de'']"]
    transform_undefined_without_date_or_locale
      [of "DateValue (DateInstance 0)" newLocaleDatePipe "[StringValue ''short'', Undefined]"]
  by (simp add: newLocaleDatePipe_def arg_def)

section \<open>The project loader\<close>

lemma path_join_tsconfig: "path_join [''/proj'', ''tsconfig.json''] = ''/proj/tsconfig.json''"
  by code_simp

text \<open>
  Claim C7: when the working directory holds no \<open>tsconfig.json\<close>, the call throws
  the error (the code's \<open>Error\<close> with the message
  \<open>No tsconfig.json found in current directory\<close>, which the specification calls
  ConfigurationNotFound). The only call made to the file system is the probe for that
  file: no project is constructed and no file is read.
\<close>

theorem getTsMorphProject_throws_without_tsconfig:
  "\<not> existsSync e (path_join [cwd e, ''tsconfig.json'']) \<Longrightarrow>
   getTsMorphProject e defaultManipulationSettings newProject options =
     ([ExistsSync (path_join [cwd e, ''tsconfig.json''])],
      Inl (Error ''No tsconfig.json found in current directory''))"
  by (simp add: getTsMorphProject_def Let_def)

theorem getTsMorphProject_throws_without_tsconfig_witness:
  "getTsMorphProject
     \<lparr>cwd = ''/proj'', existsSync = (\<lambda>_. False), readFileSync = (\<lambda>_. None),
      readdirSync = (\<lambda>_. None), parseStatements = (\<lambda>_. []),
      parseVariableDeclarations = (\<lambda>_. [])\<rparr>
     () (\<lambda>_. \<lparr>getSourceFiles = [], getDirectory = (\<lambda>_. None)\<rparr>)
     \<lparr>tsConfigFilePath = None, manipulationSettings = None, compilerOptions = None\<rparr> =
   ([ExistsSync ''/proj/tsconfig.json''],
    Inl (Error ''No tsconfig.json found in current directory''))"
  using getTsMorphProject_throws_without_tsconfig
    [of "\<lparr>cwd = ''/proj'', existsSync = (\<lambda>_. False), readFileSync = (\<lambda>_. None),
          readdirSync = (\<lambda>_. None), parseStatements = (\<lambda>_. []),
          parseVariableDeclarations = (\<lambda>_. [])\<rparr>"
        "()" "\<lambda>_. \<lparr>getSourceFiles = [], getDirectory = (\<lambda>_. None)\<rparr>"
        "\<lparr>tsConfigFilePath = None, manipulationSettings = None, compilerOptions = None\<rparr>"]
  by (simp add: path_join_tsconfig)

section \<open>The template file instantiator\<close>

lemma path_join_template:
  "path_join [''/.vendure-cli-temp/'', ''templates/plugin.ts.template'']
     = ''/.vendure-cli-temp/templates/plugin.ts.template''"
  by code_simp

lemma find_None_filter: "find P xs = None \<Longrightarrow> filter P xs = []"
  by (induction xs) (auto split: if_splits)

lemma replaceSourceFile_same:
  "distinct (map getFilePath xs) \<Longrightarrow> find (\<lambda>sf. getFilePath sf = getFilePath new) xs \<noteq> None \<Longrightarrow>
   filter (\<lambda>sf. getFilePath sf = getFilePath new) (replaceSourceFile new xs) = [new]"
proof (induction xs)
  case Nil
  then show ?case by simp
next
  case (Cons x xs)
  show ?case
  proof (cases "getFilePath x = getFilePath new")
    case True
    then have "\<forall>y \<in> set xs. getFilePath y \<noteq> getFilePath new"
      using Cons.prems(1) by (auto simp: image_iff)
    then have "filter (\<lambda>sf. getFilePath sf = getFilePath new) xs = []"
      by (simp add: filter_empty_conv)
    with True show ?thesis by simp
  next
    case False
    with Cons show ?thesis by simp
  qed
qed

lemma replaceSourceFile_others:
  "filter (\<lambda>sf. getFilePath sf \<noteq> getFilePath new) (replaceSourceFile new xs)
     = filter (\<lambda>sf. getFilePath sf \<noteq> getFilePath new) xs"
  by (induction xs) auto

lemma replaceSourceFile_paths:
  "map getFilePath (replaceSourceFile new xs) = map getFilePath xs"
  by (induction xs) auto

lemma parseSourceFile_sel:
  "getFilePath (parseSourceFile e f t) = f" "getFullText (parseSourceFile e f t) = t"
  by (simp_all add: parseSourceFile_def)

lemma createSourceFile_overwrite:
  assumes "distinct (map getFilePath (getSourceFiles p))"
  shows "\<exists>p'. createSourceFile e p f t True = Inr (parseSourceFile e f t, p') \<and>
          filter (\<lambda>sf. getFilePath sf = f) (getSourceFiles p') = [parseSourceFile e f t] \<and>
          filter (\<lambda>sf. getFilePath sf \<noteq> f) (getSourceFiles p')
            = filter (\<lambda>sf. getFilePath sf \<noteq> f) (getSourceFiles p) \<and>
          distinct (map getFilePath (getSourceFiles p'))"
proof (cases "find (\<lambda>sf. getFilePath sf = f) (getSourceFiles p)")
  case None
  then have "filter (\<lambda>sf. getFilePath sf = f) (getSourceFiles p) = []"
    by (rule find_None_filter)
  then have "f \<notin> set (map getFilePath (getSourceFiles p))"
    by (auto simp: filter_empty_conv)
  with None assms \<open>filter _ _ = []\<close> show ?thesis
    by (simp add: createSourceFile_def Let_def parseSourceFile_sel)
next
  case (Some a)
  then have ne: "find (\<lambda>sf. getFilePath sf = getFilePath (parseSourceFile e f t)) (getSourceFiles p) \<noteq> None"
    by (simp add: parseSourceFile_sel)
  show ?thesis
    using Some assms replaceSourceFile_same [OF assms ne]
      replaceSourceFile_others [of "parseSourceFile e f t" "getSourceFiles p"]
      replaceSourceFile_paths [of "parseSourceFile e f t" "getSourceFiles p"]
    by (simp add: createSourceFile_def Let_def parseSourceFile_sel)
qed


lemma createFile_returns:
  assumes "readFileSync e P = Some C" "distinct (map getFilePath (getSourceFiles p))"
  shows "\<exists>p'. createFile e p P =
            Returned (parseSourceFile e (path_join [''/.vendure-cli-temp/'', P]) C, p') \<and>
          filter (\<lambda>sf. getFilePath sf = path_join [''/.vendure-cli-temp/'', P]) (getSourceFiles p')
            = [parseSourceFile e (path_join [''/.vendure-cli-temp/'', P]) C] \<and>
          filter (\<lambda>sf. getFilePath sf \<noteq> path_join [''/.vendure-cli-temp/'', P]) (getSourceFiles p')
            = filter (\<lambda>sf. getFilePath sf \<noteq> path_join [''/.vendure-cli-temp/'', P]) (getSourceFiles p) \<and>
          distinct (map getFilePath (getSourceFiles p'))"
  using createSourceFile_overwrite [OF assms(2), of e "path_join [''/.vendure-cli-temp/'', P]" C] assms(1)
  by (auto simp: createFile_def)

text \<open>
  Claim C8: for a project whose source files have distinct paths, as a ts-morph project
  has, and a template path \<open>P\<close> with content \<open>C\<close> on disk, \<open>createFile\<close> returns a
  source file at \<open>path.join('/.vendure-cli-temp/', P)\<close> whose text is \<open>C\<close>, and the
  project holds exactly that file at that path. A second call, made when the content on
  disk is \<open>C'\<close>, returns a file at the same path whose text is \<open>C'\<close>; the project
  then holds exactly that file at the path, and its other files are those it had
  before the first call.
\<close>

theorem createFile_creates_then_overwrites:
  assumes "readFileSync e P = Some C" and "readFileSync e' P = Some C'"
    and "distinct (map getFilePath (getSourceFiles p))"
  shows "\<exists>f p1 f' p2.
           createFile e p P = Returned (f, p1) \<and>
           getFilePath f = path_join [''/.vendure-cli-temp/'', P] \<and> getFullText f = C \<and>
           filter (\<lambda>sf. getFilePath sf = path_join [''/.vendure-cli-temp/'', P]) (getSourceFiles p1) = [f] \<and>
           createFile e' p1 P = Returned (f', p2) \<and>
           getFilePath f' = path_join [''/.vendure-cli-temp/'', P] \<and> getFullText f' = C' \<and>
           filter (\<lambda>sf. getFilePath sf = path_join [''/.vendure-cli-temp/'', P]) (getSourceFiles p2) = [f'] \<and>
           filter (\<lambda>sf. getFilePath sf \<noteq> path_join [''/.vendure-cli-temp/'', P]) (getSourceFiles p2)
             = filter (\<lambda>sf. getFilePath sf \<noteq> path_join [''/.vendure-cli-temp/'', P]) (getSourceFiles p)"
proof -
  obtain p1 where p1: "createFile e p P =
            Returned (parseSourceFile e (path_join [''/.vendure-cli-temp/'', P]) C, p1)"
     "filter (\<lambda>sf. getFilePath sf = path_join [''/.vendure-cli-temp/'', P]) (getSourceFiles p1)
            = [parseSourceFile e (path_join [''/.vendure-cli-temp/'', P]) C]"
     "filter (\<lambda>sf. getFilePath sf \<noteq> path_join [''/.vendure-cli-temp/'', P]) (getSourceFiles p1)
            = filter (\<lambda>sf. getFilePath sf \<noteq> path_join [''/.vendure-cli-temp/'', P]) (getSourceFiles p)"
     "distinct (map getFilePath (getSourceFiles p1))"
    using createFile_returns [OF assms(1) assms(3)] by blast
  obtain p2 where p2: "createFile e' p1 P =
            Returned (parseSourceFile e' (path_join [''/.vendure-cli-temp/'', P]) C', p2)"
     "filter (\<lambda>sf. getFilePath sf = path_join [''/.vendure-cli-temp/'', P]) (getSourceFiles p2)
            = [parseSourceFile e' (path_join [''/.vendure-cli-temp/'', P]) C']"
     "filter (\<lambda>sf. getFilePath sf \<noteq> path_join [''/.vendure-cli-temp/'', P]) (getSourceFiles p2)
            = filter (\<lambda>sf. getFilePath sf \<noteq> path_join [''/.vendure-cli-temp/'', P]) (getSourceFiles p1)"
    using createFile_returns [OF assms(2) p1(4)] by blast
  show ?thesis
    using p1 p2 by (auto simp: parseSourceFile_sel)
qed

theorem createFile_creates_then_overwrites_witness:
  "\<exists>f p1 f' p2.
     createFile
       \<lparr>cwd = ''/proj'', existsSync = (\<lambda>_. True),
        readFileSync = (\<lambda>_. Some ''export class Foo {}''),
        readdirSync = (\<lambda>_. None), parseStatements = (\<lambda>_. []),
        parseVariableDeclarations = (\<lambda>_. [])\<rparr>
       \<lparr>getSourceFiles = [], getDirectory = (\<lambda>_. None)\<rparr>
       ''templates/plugin.ts.template'' = Returned (f, p1) \<and>
     getFilePath f = ''/.vendure-cli-temp/templates/plugin.ts.template'' \<and>
     getFullText f = ''export class Foo {}'' \<and>
     createFile
       \<lparr>cwd = ''/proj'', existsSync = (\<lambda>_. True),
        readFileSync = (\<lambda>_. Some ''export class Bar {}''),
        readdirSync = (\<lambda>_. None), parseStatements = (\<lambda>_. []),
        parseVariableDeclarations = (\<lambda>_. [])\<rparr>
       p1 ''templates/plugin.ts.template'' = Returned (f', p2) \<and>
     getFullText f' = ''export class Bar {}'' \<and>
     filter (\<lambda>sf. getFilePath sf = ''/.vendure-cli-temp/templates/plugin.ts.template'')
       (getSourceFiles p2) = [f']"
  using createFile_creates_then_overwrites
    [of "\<lparr>cwd = ''/proj'', existsSync = (\<lambda>_. True),
          readFileSync = (\<lambda>_. Some ''export class Foo {}''),
          readdirSync = (\<lambda>_. None), parseStatements = (\<lambda>_. []),
          parseVariableDeclarations = (\<lambda>_. [])\<rparr>"
        "''templates/plugin.ts.template''" "''export class Foo {}''"
        "\<lparr>cwd = ''/proj'', existsSync = (\<lambda>_. True),
          readFileSync = (\<lambda>_. Some ''export class Bar {}''),
          readdirSync = (\<lambda>_. None), parseStatements = (\<lambda>_. []),
          parseVariableDeclarations = (\<lambda>_. [])\<rparr>"
        "''export class Bar {}''"
        "\<lparr>getSourceFiles = [], getDirectory = (\<lambda>_. None)\<rparr>"]
  by (simp add: path_join_template) blast

section \<open>The import declaration editor\<close>

lemma update_first_import_length: "length (fst (update_first_import P f sts)) = length sts"
  by (induction P f sts rule: update_first_import.induct) (simp_all add: split_beta)

lemma update_first_import_map_all:
  "(\<And>d. g (fst (f d)) = g d) \<Longrightarrow>
   map g (importDeclarationsOf (fst (update_first_import P f sts))) = map g (importDeclarationsOf sts)"
  by (induction P f sts rule: update_first_import.induct) (simp_all add: split_beta)

lemma update_first_import_map_found:
  "find P (importDeclarationsOf sts) = Some d \<Longrightarrow> g (fst (f d)) = g d \<Longrightarrow>
   map g (importDeclarationsOf (fst (update_first_import P f sts))) = map g (importDeclarationsOf sts)"
  by (induction P f sts rule: update_first_import.induct) (auto simp: split_beta split: if_splits)

lemma addMissingNamedImports_frame:
  "getModuleSpecifier (fst (addMissingNamedImports snapshot names d)) = getModuleSpecifier d \<and>
   getDefaultImport (fst (addMissingNamedImports snapshot names d)) = getDefaultImport d \<and>
   getNamespaceImport (fst (addMissingNamedImports snapshot names d)) = getNamespaceImport d"
  by (induction snapshot names d rule: addMissingNamedImports.induct)
    (auto simp: addNamedImport_def split: sum.splits if_splits)

lemma setNamespaceImport_frame:
  "setNamespaceImport d text = Inr d' \<Longrightarrow>
   getModuleSpecifier d' = getModuleSpecifier d \<and> getDefaultImport d' = getDefaultImport d"
  by (auto simp: setNamespaceImport_def split: if_splits)

lemma mergeIntoExisting_frame:
  "getModuleSpecifier (fst (mergeIntoExisting options d)) = getModuleSpecifier d \<and>
   getDefaultImport (fst (mergeIntoExisting options d)) = getDefaultImport d"
  using addMissingNamedImports_frame
  by (auto simp: mergeIntoExisting_def split: option.splits sum.splits if_splits
      dest: setNamespaceImport_frame)

lemma mergeIntoExisting_namespace:
  "getNamespaceImport (fst (mergeIntoExisting options d)) \<noteq> getNamespaceImport d \<Longrightarrow>
   getNamespaceImport d = None \<and> getDefaultImport d = None \<and> truthy (namespaceImport options)"
  using addMissingNamedImports_frame
  by (auto simp: mergeIntoExisting_def truthy_def split: option.splits sum.splits if_splits)

lemma matches_string:
  "matchesModuleSpecifier (StringSpecifier m) = (\<lambda>d. getModuleSpecifier d = m)"
  by (rule ext) (simp add: matchesModuleSpecifier_def)

lemma addImportsToFile_existing:
  "find (matchesModuleSpecifier (moduleSpecifier options)) (getImportDeclarations sf) = Some d \<Longrightarrow>
   getStatements (fst (addImportsToFile sf options)) =
     fst (update_first_import (matchesModuleSpecifier (moduleSpecifier options))
            (mergeIntoExisting options) (getStatements sf))"
  by (simp add: addImportsToFile_def Let_def split: prod.splits)

lemma find_matches_file: "find (matchesModuleSpecifier (SourceFileSpecifier f)) ds = None"
  by (induction ds) (simp_all add: matchesModuleSpecifier_def)

lemma relative_b_from_a:
  "convertPathToRelativeImport (path_relative ''/proj/src/a.ts'' ''/proj/src/b.ts'') = ''./../b''"
  by code_simp

lemma getModuleSpecifierString_b_from_a:
  "getFilePath sf = ''/proj/src/a.ts'' \<Longrightarrow>
   getModuleSpecifierString (SourceFileSpecifier file_b) sf = ''./../b''"
  by (simp add: getModuleSpecifierString_def getRelativeImportPath_def file_b_def relative_b_from_a)

lemma insertIndex_examples:
  "insertIndex [] = 0" "insertIndex [ImportDeclaration d] = 1"
  by (simp_all add: insertIndex_def)

text \<open>
  Claim C6, as stated, fails: the lookup takes the first import declaration for the
  module, and the test for a default import is made on that declaration only. In a file
  with \<open>import 'm'\<close> followed by \<open>import D from 'm'\<close>, which contains an import
  declaration for \<open>m\<close> with a default import, the call for \<open>m\<close> with the namespace
  import \<open>ns\<close> sets the namespace import on the first declaration.
\<close>

theorem addImportsToFile_namespace_import_counterexample:
  "addImportsToFile
     (file_a\<lparr>getStatements :=
        [ImportDeclaration
           \<lparr>getModuleSpecifier = ''m'', getDefaultImport = None,
            getNamespaceImport = None, getNamedImports = []\<rparr>,
         ImportDeclaration
           \<lparr>getModuleSpecifier = ''m'', getDefaultImport = Some ''D'',
            getNamespaceImport = None, getNamedImports = []\<rparr>]\<rparr>)
     \<lparr>moduleSpecifier = StringSpecifier ''m'', namedImports = None,
      namespaceImport = Some ''ns'', order = None\<rparr>
   = (file_a\<lparr>getStatements :=
        [ImportDeclaration
           \<lparr>getModuleSpecifier = ''m'', getDefaultImport = None,
            getNamespaceImport = Some ''ns'', getNamedImports = []\<rparr>,
         ImportDeclaration
           \<lparr>getModuleSpecifier = ''m'', getDefaultImport = Some ''D'',
            getNamespaceImport = None, getNamedImports = []\<rparr>]\<rparr>, None)"
  by (simp add: addImportsToFile_def Let_def getImportDeclarations_def matchesModuleSpecifier_def
      mergeIntoExisting_def setNamespaceImport_def isNullOrWhitespace_def)

text \<open>
  Claim C6, amended: when \<open>moduleSpecifier\<close> is a string \<open>m\<close> and the file has an
  import declaration for \<open>m\<close>, let \<open>d\<close> be the first one. The call adds no statement
  to the file, and every import declaration keeps its module specifier and its default
  import. If \<open>d\<close> has a default import or a namespace import, every import declaration
  keeps its namespace import as it was: the namespace import asked for is skipped. A
  namespace import changes only when \<open>d\<close> has neither a namespace import nor a default
  import and a namespace import is asked for.
\<close>

theorem addImportsToFile_skips_namespace_import:
  assumes spec: "moduleSpecifier options = StringSpecifier m"
    and found: "find (\<lambda>d. getModuleSpecifier d = m) (getImportDeclarations sf) = Some d"
  shows "length (getStatements (fst (addImportsToFile sf options))) = length (getStatements sf) \<and>
    map getModuleSpecifier (getImportDeclarations (fst (addImportsToFile sf options)))
      = map getModuleSpecifier (getImportDeclarations sf) \<and>
    map getDefaultImport (getImportDeclarations (fst (addImportsToFile sf options)))
      = map getDefaultImport (getImportDeclarations sf) \<and>
    (getDefaultImport d \<noteq> None \<or> getNamespaceImport d \<noteq> None \<longrightarrow>
       map getNamespaceImport (getImportDeclarations (fst (addImportsToFile sf options)))
         = map getNamespaceImport (getImportDeclarations sf)) \<and>
    (map getNamespaceImport (getImportDeclarations (fst (addImportsToFile sf options)))
         \<noteq> map getNamespaceImport (getImportDeclarations sf) \<longrightarrow>
       getNamespaceImport d = None \<and> getDefaultImport d = None \<and>
       truthy (namespaceImport options))"
proof -
  let ?P = "matchesModuleSpecifier (moduleSpecifier options)"
  have f: "find ?P (getImportDeclarations sf) = Some d"
    using found by (simp add: spec matches_string)
  have st: "getStatements (fst (addImportsToFile sf options)) =
     fst (update_first_import ?P (mergeIntoExisting options) (getStatements sf))"
    using f by (rule addImportsToFile_existing)
  have f': "find ?P (importDeclarationsOf (getStatements sf)) = Some d"
    using f by (simp add: getImportDeclarations_def)
  have ns: "map getNamespaceImport (getImportDeclarations (fst (addImportsToFile sf options)))
         = map getNamespaceImport (getImportDeclarations sf)"
    if "getNamespaceImport (fst (mergeIntoExisting options d)) = getNamespaceImport d"
    using update_first_import_map_found [OF f', of getNamespaceImport "mergeIntoExisting options"] that
    by (simp add: getImportDeclarations_def st)
  have unchanged: "getNamespaceImport (fst (mergeIntoExisting options d)) = getNamespaceImport d"
    if "getDefaultImport d \<noteq> None \<or> getNamespaceImport d \<noteq> None"
  proof (rule ccontr)
    assume "getNamespaceImport (fst (mergeIntoExisting options d)) \<noteq> getNamespaceImport d"
    then have "getNamespaceImport d = None \<and> getDefaultImport d = None \<and>
        truthy (namespaceImport options)"
      by (rule mergeIntoExisting_namespace)
    with that show False by simp
  qed
  have changed: "getNamespaceImport d = None \<and> getDefaultImport d = None \<and>
       truthy (namespaceImport options)"
    if "map getNamespaceImport (getImportDeclarations (fst (addImportsToFile sf options)))
         \<noteq> map getNamespaceImport (getImportDeclarations sf)"
  proof -
    from that ns have "getNamespaceImport (fst (mergeIntoExisting options d)) \<noteq> getNamespaceImport d"
      by (rule contrapos_nn)
    then show ?thesis by (rule mergeIntoExisting_namespace)
  qed
  have len: "length (getStatements (fst (addImportsToFile sf options))) = length (getStatements sf)"
    by (simp add: st update_first_import_length)
  have ms: "map getModuleSpecifier (getImportDeclarations (fst (addImportsToFile sf options)))
      = map getModuleSpecifier (getImportDeclarations sf)"
    unfolding getImportDeclarations_def st
    by (rule update_first_import_map_all) (simp add: mergeIntoExisting_frame)
  have df: "map getDefaultImport (getImportDeclarations (fst (addImportsToFile sf options)))
      = map getDefaultImport (getImportDeclarations sf)"
    unfolding getImportDeclarations_def st
    by (rule update_first_import_map_all) (simp add: mergeIntoExisting_frame)
  show ?thesis
  proof (intro conjI impI)
    show "length (getStatements (fst (addImportsToFile sf options))) = length (getStatements sf)"
      by (rule len)
    show "map getModuleSpecifier (getImportDeclarations (fst (addImportsToFile sf options)))
      = map getModuleSpecifier (getImportDeclarations sf)"
      by (rule ms)
    show "map getDefaultImport (getImportDeclarations (fst (addImportsToFile sf options)))
      = map getDefaultImport (getImportDeclarations sf)"
      by (rule df)
    show "map getNamespaceImport (getImportDeclarations (fst (addImportsToFile sf options)))
         = map getNamespaceImport (getImportDeclarations sf)"
      if "getDefaultImport d \<noteq> None \<or> getNamespaceImport d \<noteq> None"
      using that by (intro ns unchanged)
    show "getNamespaceImport d = None" "getDefaultImport d = None"
      "truthy (namespaceImport options)"
      if "map getNamespaceImport (getImportDeclarations (fst (addImportsToFile sf options)))
         \<noteq> map getNamespaceImport (getImportDeclarations sf)"
      using changed [OF that] by simp_all
  qed
qed

theorem addImportsToFile_skips_namespace_import_witness:
  "find (\<lambda>d. getModuleSpecifier d = ''react'')
     (getImportDeclarations
        (file_a\<lparr>getStatements :=
           [ImportDeclaration
              \<lparr>getModuleSpecifier = ''react'', getDefaultImport = Some ''React'',
               getNamespaceImport = None, getNamedImports = []\<rparr>]\<rparr>))
     = Some \<lparr>getModuleSpecifier = ''react'', getDefaultImport = Some ''React'',
             getNamespaceImport = None, getNamedImports = []\<rparr> \<and>
   length (getStatements
     (fst (addImportsToFile
        (file_a\<lparr>getStatements :=
           [ImportDeclaration
              \<lparr>getModuleSpecifier = ''react'', getDefaultImport = Some ''React'',
               getNamespaceImport = None, getNamedImports = []\<rparr>]\<rparr>)
        \<lparr>moduleSpecifier = StringSpecifier ''react'', namedImports = None,
         namespaceImport = Some ''R'', order = None\<rparr>))) = 1 \<and>
   map getDefaultImport (getImportDeclarations
     (fst (addImportsToFile
        (file_a\<lparr>getStatements :=
           [ImportDeclaration
              \<lparr>getModuleSpecifier = ''react'', getDefaultImport = Some ''React'',
               getNamespaceImport = None, getNamedImports = []\<rparr>]\<rparr>)
        \<lparr>moduleSpecifier = StringSpecifier ''react'', namedImports = None,
         namespaceImport = Some ''R'', order = None\<rparr>))) = [Some ''React''] \<and>
   map getNamespaceImport (getImportDeclarations
     (fst (addImportsToFile
        (file_a\<lparr>getStatements :=
           [ImportDeclaration
              \<lparr>getModuleSpecifier = ''react'', getDefaultImport = Some ''React'',
               getNamespaceImport = None, getNamedImports = []\<rparr>]\<rparr>)
        \<lparr>moduleSpecifier = StringSpecifier ''react'', namedImports = None,
         namespaceImport = Some ''R'', order = None\<rparr>))) = [None]"
proof -
  have found: "find (\<lambda>d. getModuleSpecifier d = ''react'')
     (getImportDeclarations
        (file_a\<lparr>getStatements :=
           [ImportDeclaration
              \<lparr>getModuleSpecifier = ''react'', getDefaultImport = Some ''React'',
               getNamespaceImport = None, getNamedImports = []\<rparr>]\<rparr>))
     = Some \<lparr>getModuleSpecifier = ''react'', getDefaultImport = Some ''React'',
             getNamespaceImport = None, getNamedImports = []\<rparr>"
    by (simp add: getImportDeclarations_def)
  have spec: "moduleSpecifier
      \<lparr>moduleSpecifier = StringSpecifier ''react'', namedImports = None,
       namespaceImport = Some ''R'', order = None\<rparr> = StringSpecifier ''react''"
    by simp
  show ?thesis
    using found addImportsToFile_skips_namespace_import [OF spec found]
    by (simp add: getImportDeclarations_def)
qed

text \<open>
  Claim C1 fails on the code when \<open>moduleSpecifier\<close> is a source file: the lookup
  compares the literal value of each declaration with \<open>options.moduleSpecifier\<close>, the
  source file itself, and not with the resolved string, so it finds nothing and every
  call adds a declaration. For \<open>/proj/src/a.ts\<close> without imports and the module
  \<open>/proj/src/b.ts\<close>, two calls with the same arguments, neither of which throws, leave
  two import declarations for the resolved specifier.
\<close>

theorem addImportsToFile_twice_with_source_file_specifier:
  "getImportDeclarations
     (fst (addImportsToFile
        (fst (addImportsToFile file_a
           \<lparr>moduleSpecifier = SourceFileSpecifier file_b, namedImports = Some [''B''],
            namespaceImport = None, order = None\<rparr>))
        \<lparr>moduleSpecifier = SourceFileSpecifier file_b, namedImports = Some [''B''],
         namespaceImport = None, order = None\<rparr>))
   = [\<lparr>getModuleSpecifier = ''./../b'', getDefaultImport = None, getNamespaceImport = None,
        getNamedImports = [''B'']\<rparr>,
      \<lparr>getModuleSpecifier = ''./../b'', getDefaultImport = None, getNamespaceImport = None,
        getNamedImports = [''B'']\<rparr>] \<and>
   snd (addImportsToFile file_a
          \<lparr>moduleSpecifier = SourceFileSpecifier file_b, namedImports = Some [''B''],
           namespaceImport = None, order = None\<rparr>) = None \<and>
   snd (addImportsToFile
          (fst (addImportsToFile file_a
             \<lparr>moduleSpecifier = SourceFileSpecifier file_b, namedImports = Some [''B''],
              namespaceImport = None, order = None\<rparr>))
          \<lparr>moduleSpecifier = SourceFileSpecifier file_b, namedImports = Some [''B''],
           namespaceImport = None, order = None\<rparr>) = None"
proof -
  have a: "getFilePath file_a = ''/proj/src/a.ts''" "getStatements file_a = []"
    by (simp_all add: file_a_def)
  have one:
    "addImportsToFile file_a
       \<lparr>moduleSpecifier = SourceFileSpecifier file_b, namedImports = Some [''B''],
        namespaceImport = None, order = None\<rparr>
     = (file_a\<lparr>getStatements :=
          [ImportDeclaration
             \<lparr>getModuleSpecifier = ''./../b'', getDefaultImport = None,
              getNamespaceImport = None, getNamedImports = [''B'']\<rparr>]\<rparr>, None)"
    by (simp add: addImportsToFile_def Let_def find_matches_file addImportDeclaration_def
        getModuleSpecifierString_b_from_a a truthy_def insertIndex_examples)
  have two:
    "addImportsToFile
       (file_a\<lparr>getStatements :=
          [ImportDeclaration
             \<lparr>getModuleSpecifier = ''./../b'', getDefaultImport = None,
              getNamespaceImport = None, getNamedImports = [''B'']\<rparr>]\<rparr>)
       \<lparr>moduleSpecifier = SourceFileSpecifier file_b, namedImports = Some [''B''],
        namespaceImport = None, order = None\<rparr>
     = (file_a\<lparr>getStatements :=
          [ImportDeclaration
             \<lparr>getModuleSpecifier = ''./../b'', getDefaultImport = None,
              getNamespaceImport = None, getNamedImports = [''B'']\<rparr>,
           ImportDeclaration
             \<lparr>getModuleSpecifier = ''./../b'', getDefaultImport = None,
              getNamespaceImport = None, getNamedImports = [''B'']\<rparr>]\<rparr>, None)"
    by (simp add: addImportsToFile_def Let_def find_matches_file addImportDeclaration_def
        getModuleSpecifierString_b_from_a a truthy_def insertIndex_examples)
  show ?thesis
    by (simp add: one two getImportDeclarations_def)
qed

section \<open>The named-config locator\<close>

lemma find_first:
  "(\<forall>y \<in> set pre. \<not> P y) \<Longrightarrow> P x \<Longrightarrow> find P (pre @ x # post) = Some x"
  by (induction pre) auto

lemma find_none: "(\<forall>y \<in> set xs. \<not> P y) \<Longrightarrow> find P xs = None"
  by (induction xs) auto

lemma find_isVendureConfig_None:
  "find isVendureConfigVariableDeclaration vs = None \<longleftrightarrow>
     (\<forall>v \<in> set vs. getTypeText v \<noteq> ''VendureConfig'')"
  by (auto simp: find_None_iff isVendureConfigVariableDeclaration_def)

lemma getVendureConfig_nothing:
  assumes "getDirectory p ''src'' = None"
    and "\<forall>sf \<in> set (getSourceFiles p). \<forall>v \<in> set (getVariableDeclarations sf).
           getTypeText v \<noteq> ''VendureConfig''"
  shows "getVendureConfig e p opt = Inr (None, p)"
proof -
  have "getVendureConfigSourceFile c (getSourceFiles p) = None" for c
    unfolding getVendureConfigSourceFile_def
    by (rule find_none) (use assms(2) in \<open>simp add: find_isVendureConfig_None\<close>)
  then show ?thesis
    using assms(1)
    by (simp add: getVendureConfig_def findAndAddVendureConfigToProject_def
        vendureConfigInitializer_def)
qed

lemma getVendureConfig_first:
  assumes files: "getSourceFiles p = pre @ sf # post"
    and pre: "\<forall>f \<in> set pre.
           \<not> (((case opt of None \<Rightarrow> True | Some b \<Rightarrow> b) \<longrightarrow>
                 endsWith (getFilePath f) ''vendure-config.ts'') \<and>
              (\<exists>v \<in> set (getVariableDeclarations f). getTypeText v = ''VendureConfig''))"
    and nm: "(case opt of None \<Rightarrow> True | Some b \<Rightarrow> b) \<longrightarrow>
               endsWith (getFilePath sf) ''vendure-config.ts''"
    and vars: "getVariableDeclarations sf = vpre @ v # vpost"
    and vpre: "\<forall>w \<in> set vpre. getTypeText w \<noteq> ''VendureConfig''"
    and v: "getTypeText v = ''VendureConfig''"
  shows "getVendureConfig e p opt = Inr (find isObjectLiteralExpression (getChildren v), p)"
proof -
  let ?c = "case opt of None \<Rightarrow> True | Some b \<Rightarrow> b"
  have fv: "find isVendureConfigVariableDeclaration (getVariableDeclarations sf) = Some v"
    unfolding vars
    by (rule find_first) (use vpre v in \<open>simp_all add: isVendureConfigVariableDeclaration_def\<close>)
  have "getVendureConfigSourceFile ?c (getSourceFiles p) = Some sf"
    unfolding getVendureConfigSourceFile_def files
  proof (rule find_first)
    show "\<forall>y\<in>set pre. \<not> ((if ?c then endsWith (getFilePath y) ''vendure-config.ts'' else True) \<and>
          find isVendureConfigVariableDeclaration (getVariableDeclarations y) \<noteq> None)"
      using pre by (auto simp: find_isVendureConfig_None)
    show "(if ?c then endsWith (getFilePath sf) ''vendure-config.ts'' else True) \<and>
          find isVendureConfigVariableDeclaration (getVariableDeclarations sf) \<noteq> None"
      using nm fv by simp
  qed
  then show ?thesis
    using fv by (simp add: getVendureConfig_def vendureConfigInitializer_def)
qed


lemma endsWith_src_config: "endsWith ''/proj/src/vendure-config.ts'' ''vendure-config.ts''"
  by (simp add: endsWith_def suffix_def)
lemma endsWith_other: "\<not> endsWith ''/proj/src/other.ts'' ''vendure-config.ts''"
  by (simp add: endsWith_def suffix_to_prefix)
lemma endsWith_dev_config: "endsWith ''/proj/dev/vendure-config.ts'' ''vendure-config.ts''"
  by (simp add: endsWith_def suffix_def)

text \<open>
  Claim C5. A candidate is a source file that has a variable declaration whose type text
  is \<open>VendureConfig\<close> and, when \<open>checkFileName\<close> is set (the default), whose path
  ends with \<open>vendure-config.ts\<close>. With no \<open>src\<close> directory and no such declaration
  in any file, the result is \<open>undefined\<close> and the project is unchanged. Otherwise the
  result comes from the first candidate in the order of the project's files, and in it
  from the first declaration with that type text: it is that declaration's initializer,
  found as its first child that is an object literal. Files before the first candidate
  and candidates after it do not matter.
\<close>

theorem getVendureConfig_first_candidate:
  "(getDirectory p ''src'' = None \<and>
    (\<forall>f \<in> set (getSourceFiles p). \<forall>w \<in> set (getVariableDeclarations f).
       getTypeText w \<noteq> ''VendureConfig'') \<longrightarrow>
    getVendureConfig e p opt = Inr (None, p)) \<and>
   (getSourceFiles p = pre @ sf # post \<and>
    (\<forall>f \<in> set pre.
       \<not> (((case opt of None \<Rightarrow> True | Some b \<Rightarrow> b) \<longrightarrow>
             endsWith (getFilePath f) ''vendure-config.ts'') \<and>
          (\<exists>w \<in> set (getVariableDeclarations f). getTypeText w = ''VendureConfig''))) \<and>
    ((case opt of None \<Rightarrow> True | Some b \<Rightarrow> b) \<longrightarrow>
       endsWith (getFilePath sf) ''vendure-config.ts'') \<and>
    getVariableDeclarations sf = vpre @ v # vpost \<and>
    (\<forall>w \<in> set vpre. getTypeText w \<noteq> ''VendureConfig'') \<and>
    getTypeText v = ''VendureConfig'' \<and>
    getChildren v = cpre @ ObjectLiteralExpression init # cpost \<and>
    (\<forall>c \<in> set cpre. \<not> isObjectLiteralExpression c) \<longrightarrow>
    getVendureConfig e p opt = Inr (Some (ObjectLiteralExpression init), p))"
proof (intro conjI impI)
  assume "getDirectory p ''src'' = None \<and>
    (\<forall>f \<in> set (getSourceFiles p). \<forall>w \<in> set (getVariableDeclarations f).
       getTypeText w \<noteq> ''VendureConfig'')"
  then show "getVendureConfig e p opt = Inr (None, p)"
    using getVendureConfig_nothing [of p e opt] by blast
next
  assume h: "getSourceFiles p = pre @ sf # post \<and>
    (\<forall>f \<in> set pre.
       \<not> (((case opt of None \<Rightarrow> True | Some b \<Rightarrow> b) \<longrightarrow>
             endsWith (getFilePath f) ''vendure-config.ts'') \<and>
          (\<exists>w \<in> set (getVariableDeclarations f). getTypeText w = ''VendureConfig''))) \<and>
    ((case opt of None \<Rightarrow> True | Some b \<Rightarrow> b) \<longrightarrow>
       endsWith (getFilePath sf) ''vendure-config.ts'') \<and>
    getVariableDeclarations sf = vpre @ v # vpost \<and>
    (\<forall>w \<in> set vpre. getTypeText w \<noteq> ''VendureConfig'') \<and>
    getTypeText v = ''VendureConfig'' \<and>
    getChildren v = cpre @ ObjectLiteralExpression init # cpost \<and>
    (\<forall>c \<in> set cpre. \<not> isObjectLiteralExpression c)"
  then have "getVendureConfig e p opt = Inr (find isObjectLiteralExpression (getChildren v), p)"
    by (intro getVendureConfig_first [of p pre sf post opt vpre v vpost]) blast+
  moreover have "find isObjectLiteralExpression (getChildren v) = Some (ObjectLiteralExpression init)"
    using h find_first [of cpre isObjectLiteralExpression "ObjectLiteralExpression init" cpost]
    by simp
  ultimately show "getVendureConfig e p opt = Inr (Some (ObjectLiteralExpression init), p)"
    by simp
qed

theorem getVendureConfig_first_candidate_witness:
  "getVendureConfig
     \<lparr>cwd = ''/proj'', existsSync = (\<lambda>_. True), readFileSync = (\<lambda>_. None),
       readdirSync = (\<lambda>_. None), parseStatements = (\<lambda>_. []),
       parseVariableDeclarations = (\<lambda>_. [])\<rparr>
     \<lparr>getSourceFiles = [], getDirectory = (\<lambda>_. None)\<rparr> None
     = Inr (None, \<lparr>getSourceFiles = [], getDirectory = (\<lambda>_. None)\<rparr>) \<and>
   getVendureConfig
     \<lparr>cwd = ''/proj'', existsSync = (\<lambda>_. True), readFileSync = (\<lambda>_. None),
       readdirSync = (\<lambda>_. None), parseStatements = (\<lambda>_. []),
       parseVariableDeclarations = (\<lambda>_. [])\<rparr>
     \<lparr>getSourceFiles =
        [config_file ''/proj/src/other.ts'' ''{ a }'',
         config_file ''/proj/src/vendure-config.ts'' ''{ b }'',
         config_file ''/proj/dev/vendure-config.ts'' ''{ c }''],
      getDirectory = (\<lambda>_. None)\<rparr> None
     = Inr (Some (ObjectLiteralExpression ''{ b }''),
            \<lparr>getSourceFiles =
               [config_file ''/proj/src/other.ts'' ''{ a }'',
                config_file ''/proj/src/vendure-config.ts'' ''{ b }'',
                config_file ''/proj/dev/vendure-config.ts'' ''{ c }''],
             getDirectory = (\<lambda>_. None)\<rparr>)"
  using
    getVendureConfig_first_candidate
      [of "\<lparr>getSourceFiles = [], getDirectory = (\<lambda>_. None)\<rparr>"
          "\<lparr>cwd = ''/proj'', existsSync = (\<lambda>_. True), readFileSync = (\<lambda>_. None),
       readdirSync = (\<lambda>_. None), parseStatements = (\<lambda>_. []),
       parseVariableDeclarations = (\<lambda>_. [])\<rparr>" None]
    getVendureConfig_first_candidate
      [of "\<lparr>getSourceFiles =
              [config_file ''/proj/src/other.ts'' ''{ a }'',
               config_file ''/proj/src/vendure-config.ts'' ''{ b }'',
               config_file ''/proj/dev/vendure-config.ts'' ''{ c }''],
            getDirectory = (\<lambda>_. None)\<rparr>"
          "\<lparr>cwd = ''/proj'', existsSync = (\<lambda>_. True), readFileSync = (\<lambda>_. None),
       readdirSync = (\<lambda>_. None), parseStatements = (\<lambda>_. []),
       parseVariableDeclarations = (\<lambda>_. [])\<rparr>" None
          "[config_file ''/proj/src/other.ts'' ''{ a }'']"
          "config_file ''/proj/src/vendure-config.ts'' ''{ b }''"
          "[config_file ''/proj/dev/vendure-config.ts'' ''{ c }'']"
          "[\<lparr>getTypeText = ''string'', getChildren = [OtherNode ''name'', OtherNode ''x'']\<rparr>]"
          "\<lparr>getTypeText = ''VendureConfig'',
            getChildren = [OtherNode ''config'', OtherNode ''VendureConfig'',
                           ObjectLiteralExpression ''{ b }'']\<rparr>"
          "[]"
          "[OtherNode ''config'', OtherNode ''VendureConfig'']" "''{ b }''" "[]"]
  by (simp add: config_file_def endsWith_src_config endsWith_other)

section \<open>The path normaliser\<close>

lemma set_replace_double_slashes: "set (replace_double_slashes xs) \<subseteq> set xs"
  by (induction xs rule: replace_double_slashes.induct) auto

lemma replace_double_slashes_id:
  "\<not> sublist ''//'' xs \<Longrightarrow> replace_double_slashes xs = xs"
proof (induction xs rule: replace_double_slashes.induct)
  case (1 a b rest)
  from "1.prems" have nab: "\<not> (a = CHR ''/'' \<and> b = CHR ''/'')"
    by (auto simp: sublist_Cons_right)
  from "1.prems" have "\<not> sublist ''//'' (b # rest)"
    by (auto simp: sublist_Cons_right)
  with 1 nab show ?case by auto
qed simp_all

lemma replace_double_slashes_dot_slash:
  "prefix ''./'' (replace_double_slashes (''./'' @ xs))"
  by (cases xs) auto

lemma set_slice: "set (slice s a b) \<subseteq> set s"
  unfolding slice_def Let_def
  by (meson set_take_subset set_drop_subset subset_trans)

lemma slice_take_drop: "0 \<le> a \<Longrightarrow> \<exists>k. slice s a b = take k (drop (nat a) s)"
proof -
  assume a: "0 \<le> a"
  define to where "to = (if b < 0 then max (int (length s) + b) 0 else min b (int (length s)))"
  show ?thesis
  proof (cases "a \<le> int (length s)")
    case True
    with a have "slice s a b = take (nat (to - a)) (drop (nat a) s)"
      by (simp add: slice_def Let_def to_def)
    then show ?thesis by (rule exI)
  next
    case False
    with a have "slice s a b = take 0 (drop (nat a) s)"
      by (simp add: slice_def Let_def)
    then show ?thesis by (rule exI)
  qed
qed

lemma set_replace_backslashes: "CHR 0x5C \<notin> set (replace_backslashes p)"
  by (auto simp: replace_backslashes_def)

lemma set_dir: "set (dir (path_parse n)) \<subseteq> insert CHR ''/'' (set n)"
  using set_slice [of n] by (auto simp: path_parse_def Let_def)

lemma set_name: "set (name (path_parse n)) \<subseteq> set n"
  using set_slice [of n] by (auto simp: path_parse_def Let_def)

lemma convertPathToRelativeImport_no_backslash: "CHR 0x5C \<notin> set (convertPathToRelativeImport p)"
proof -
  let ?n = "replace_backslashes p"
  have "set (convertPathToRelativeImport p)
          \<subseteq> set (''./'' @ dir (path_parse ?n) @ ''/'' @ name (path_parse ?n))"
    unfolding convertPathToRelativeImport_def Let_def by (rule set_replace_double_slashes)
  also have "\<dots> \<subseteq> {CHR ''.'', CHR ''/''} \<union> set ?n"
    using set_dir [of ?n] set_name [of ?n] by auto
  finally show ?thesis using set_replace_backslashes [of p] by auto
qed

lemma convertPathToRelativeImport_dot_slash: "prefix ''./'' (convertPathToRelativeImport p)"
  unfolding convertPathToRelativeImport_def Let_def by (rule replace_double_slashes_dot_slash)

lemma parse_loop_startPart:
  "startPart (parse_loop path start n st) = startPart st \<or>
   (\<exists>i. startPart (parse_loop path start n st) = int i + 1 \<and> i < n \<and> start \<le> i \<and>
        path ! i = CHR ''/'')"
proof (induction n arbitrary: st)
  case 0
  then show ?case by simp
next
  case (Suc n)
  show ?case
  proof (cases "n < start")
    case True
    then show ?thesis by simp
  next
    case ge: False
    show ?thesis
    proof (cases "path ! n = CHR ''/''")
      case True
      show ?thesis
      proof (cases "matchedSlash st")
        case True
        with \<open>path ! n = CHR ''/''\<close> ge Suc.IH [of st] show ?thesis
          by (auto simp: less_Suc_eq)
      next
        case False
        with \<open>path ! n = CHR ''/''\<close> ge show ?thesis by auto
      qed
    next
      case False
      define st1 where "st1 = (if endIdx st = -1 then st\<lparr>matchedSlash := False, endIdx := int n + 1\<rparr>
                    else st)"
      define st2 where "st2 = (if path ! n = CHR ''.'' then
                      (if startDot st1 = -1 then st1\<lparr>startDot := int n\<rparr>
                       else if preDotState st1 \<noteq> 1 then st1\<lparr>preDotState := 1\<rparr>
                       else st1)
                    else if startDot st1 \<noteq> -1 then st1\<lparr>preDotState := -1\<rparr>
                    else st1)"
      have sp: "startPart st2 = startPart st"
        by (simp add: st1_def st2_def)
      have "parse_loop path start (Suc n) st = parse_loop path start n st2"
        using False ge by (simp add: st1_def st2_def Let_def)
      with Suc.IH [of st2] sp show ?thesis
        by (auto simp: less_Suc_eq)
    qed
  qed
qed


lemma not_sublist_prefix: "prefix xs ys \<Longrightarrow> \<not> sublist zs ys \<Longrightarrow> \<not> sublist zs xs"
  by (meson prefix_imp_sublist sublist_order.order.trans)

lemma not_sublist_dot_slash:
  "\<not> sublist ''//'' n \<Longrightarrow> \<not> prefix ''/'' n \<Longrightarrow> \<not> sublist ''//'' (''./'' @ n)"
  by (simp add: sublist_Cons_right)

lemma slice_from_0: "i \<le> length s \<Longrightarrow> slice s 0 (int i) = take i s"
  by (simp add: slice_def Let_def)

lemma relative_output_prefix:
  assumes ns: "\<not> sublist ''//'' n" and rel: "\<not> prefix ''/'' n"
  shows "prefix (replace_double_slashes (''./'' @ dir (path_parse n) @ ''/'' @ name (path_parse n)))
           (''./'' @ n)"
proof (cases "n = []")
  case True
  then show ?thesis by (simp add: path_parse_def)
next
  case False
  with rel have hd: "hd n \<noteq> CHR ''/''" by (cases n) auto
  define st where "st = parse_loop n 0 (length n)
                    \<lparr>startDot = -1, startPart = 0, endIdx = -1, matchedSlash = True,
                     preDotState = 0\<rparr>"
  have dir: "dir (path_parse n) = (if startPart st > 0 then slice n 0 (startPart st - 1) else [])"
    using False hd by (simp add: path_parse_def Let_def st_def)
  have sp: "startPart st = 0 \<or> (\<exists>i. startPart st = int i + 1 \<and> i < length n \<and> n ! i = CHR ''/'')"
    using parse_loop_startPart [of n 0 "length n"
        "\<lparr>startDot = -1, startPart = 0, endIdx = -1, matchedSlash = True, preDotState = 0\<rparr>"]
    by (auto simp: st_def)
  then have nonneg: "0 \<le> startPart st" by auto
  define noExt where "noExt \<longleftrightarrow>
      (startDot st = -1 \<or> preDotState st = 0 \<or>
       (preDotState st = 1 \<and> startDot st = endIdx st - 1 \<and> startDot st = startPart st + 1))"
  have nm_eq: "name (path_parse n) =
      (if endIdx st \<noteq> -1
       then (if noExt then slice n (startPart st) (endIdx st)
             else slice n (startPart st) (startDot st))
       else [])"
    using False hd by (simp add: path_parse_def Let_def st_def noExt_def)
  have "\<exists>k. name (path_parse n) = take k (drop (nat (startPart st)) n)"
  proof (cases "endIdx st \<noteq> -1")
    case True
    show ?thesis
    proof (cases noExt)
      case True
      with \<open>endIdx st \<noteq> -1\<close> have "name (path_parse n) = slice n (startPart st) (endIdx st)"
        by (simp add: nm_eq)
      then show ?thesis using slice_take_drop [OF nonneg, of n "endIdx st"] by simp
    next
      case False
      with \<open>endIdx st \<noteq> -1\<close> have "name (path_parse n) = slice n (startPart st) (startDot st)"
        by (simp add: nm_eq)
      then show ?thesis using slice_take_drop [OF nonneg, of n "startDot st"] by simp
    qed
  next
    case False
    then have "name (path_parse n) = take 0 (drop (nat (startPart st)) n)"
      by (simp add: nm_eq)
    then show ?thesis by (rule exI)
  qed
  then obtain k where name: "name (path_parse n) = take k (drop (nat (startPart st)) n)" ..
  from sp show ?thesis
  proof
    assume z: "startPart st = 0"
    have "\<not> sublist ''//'' (take k n)"
      using ns by (rule not_sublist_prefix [OF take_is_prefix])
    then have "replace_double_slashes (take k n) = take k n"
      by (rule replace_double_slashes_id)
    then have "replace_double_slashes (''./'' @ dir (path_parse n) @ ''/'' @ name (path_parse n))
             = ''./'' @ take k n"
      using z by (simp add: dir name)
    then show ?thesis by (simp add: take_is_prefix)
  next
    assume "\<exists>i. startPart st = int i + 1 \<and> i < length n \<and> n ! i = CHR ''/''"
    then obtain i where i: "startPart st = int i + 1" "i < length n" "n ! i = CHR ''/''" by blast
    have d: "dir (path_parse n) = take i n"
      using i by (simp add: dir slice_from_0)
    have nm: "name (path_parse n) = take k (drop (Suc i) n)"
      using i by (simp add: name nat_add_distrib)
    have e: "take i n @ CHR ''/'' # drop (Suc i) n = n"
      using i id_take_nth_drop [of i n] by simp
    have "prefix (take i n @ CHR ''/'' # take k (drop (Suc i) n))
            (take i n @ CHR ''/'' # drop (Suc i) n)"
      by (simp add: take_is_prefix)
    then have "prefix (take i n @ CHR ''/'' # take k (drop (Suc i) n)) n"
      by (simp only: e)
    then have p: "prefix (''./'' @ dir (path_parse n) @ ''/'' @ name (path_parse n)) (''./'' @ n)"
      by (simp add: d nm)
    have "\<not> sublist ''//'' (''./'' @ dir (path_parse n) @ ''/'' @ name (path_parse n))"
      using p not_sublist_dot_slash [OF ns rel] by (rule not_sublist_prefix)
    then have "replace_double_slashes (''./'' @ dir (path_parse n) @ ''/'' @ name (path_parse n))
             = ''./'' @ dir (path_parse n) @ ''/'' @ name (path_parse n)"
      by (rule replace_double_slashes_id)
    with p show ?thesis by simp
  qed
qed

lemma relative_no_double_slash:
  assumes "\<not> sublist ''//'' (replace_backslashes p)" and "\<not> prefix ''/'' (replace_backslashes p)"
  shows "\<not> sublist ''//'' (convertPathToRelativeImport p)"
  unfolding convertPathToRelativeImport_def Let_def
  using relative_output_prefix [OF assms] not_sublist_dot_slash [OF assms]
  by (rule not_sublist_prefix)

lemma convertPathToRelativeImport_examples:
  "convertPathToRelativeImport ''b.ts'' = ''./b''"
  "convertPathToRelativeImport ''./b'' = ''././b''"
  "convertPathToRelativeImport ''a///b.ts'' = ''./a//b''"
  by code_simp+

lemma relative_example_input:
  "\<not> sublist ''//'' (replace_backslashes ''../b.ts'')"
  "\<not> prefix ''/'' (replace_backslashes ''../b.ts'')"
  by code_simp+

text \<open>
  Claim C2, as stated, fails twice. The function is not idempotent: it puts
  \<open>./\<close> before the directory of whatever it is given, so its output \<open>./b\<close> for
  \<open>b.ts\<close> becomes \<open>././b\<close>. And its output can contain \<open>//\<close>: the replacement of
  \<open>//\<close> by \<open>/\<close> goes through the string once, so a run of three slashes leaves two.
\<close>

theorem convertPathToRelativeImport_counterexample:
  "convertPathToRelativeImport ''b.ts'' = ''./b'' \<and>
   convertPathToRelativeImport ''./b'' = ''././b'' \<and>
   convertPathToRelativeImport ''a///b.ts'' = ''./a//b''"
  by (simp add: convertPathToRelativeImport_examples)

text \<open>
  Claim C2, amended: for every input the output starts with \<open>./\<close> and contains no
  backslash; and when the input, after its backslashes are turned into slashes, does
  not start with a slash and contains no \<open>//\<close>, as a relative path computed by
  \<open>path.relative\<close> does, the output contains no \<open>//\<close>. The function is not
  idempotent: applied to its own output \<open>./b\<close> it gives \<open>././b\<close>.
\<close>

theorem convertPathToRelativeImport_output:
  "prefix ''./'' (convertPathToRelativeImport p) \<and>
   CHR 0x5C \<notin> set (convertPathToRelativeImport p) \<and>
   (\<not> includes_str (replace_backslashes p) ''//'' \<and> \<not> prefix ''/'' (replace_backslashes p) \<longrightarrow>
      \<not> includes_str (convertPathToRelativeImport p) ''//'') \<and>
   convertPathToRelativeImport (convertPathToRelativeImport ''b.ts'')
     \<noteq> convertPathToRelativeImport ''b.ts''"
  using convertPathToRelativeImport_dot_slash [of p] convertPathToRelativeImport_no_backslash [of p]
    relative_no_double_slash [of p]
  by (simp add: includes_str_def convertPathToRelativeImport_examples)

theorem convertPathToRelativeImport_output_witness:
  "\<not> includes_str (replace_backslashes ''../b.ts'') ''//'' \<and>
   \<not> prefix ''/'' (replace_backslashes ''../b.ts'') \<and>
   prefix ''./'' (convertPathToRelativeImport ''../b.ts'') \<and>
   \<not> includes_str (convertPathToRelativeImport ''../b.ts'') ''//''"
  using convertPathToRelativeImport_output [of "''../b.ts''"] relative_example_input
  by (simp add: includes_str_def)

end
